theory Spec2Isabelle
  imports Main "HOL-Library.Word"
begin

section \<open>Data model of internal/transport\<close>

text \<open>
  A \<^verbatim>\<open>time.Time\<close> obtained from \<^verbatim>\<open>time.Parse\<close> is an instant and the location
  it is shown in (UTC, or the zone of the offset that was parsed); it carries no monotonic
  reading. \<^verbatim>\<open>Before\<close> compares the instants, \<^verbatim>\<open>Add\<close> adds a duration to the
  instant and keeps the location, and \<^verbatim>\<open>Format\<close> prints the instant in the location.
  An instant is the number of nanoseconds on the time line; a parsed instant lies in the
  years 0 to 9999 and a duration built from an \<^verbatim>\<open>int32\<close> number of seconds is below
  69 years, so none of the additions of the chunking loop leaves the range of Go's
  representation and the unbounded integers agree with it.
\<close>

record time =
  instant :: int
  location :: string

definition Before :: "time \<Rightarrow> time \<Rightarrow> bool" where
  "Before t u = (instant t < instant u)"

definition Add :: "time \<Rightarrow> int \<Rightarrow> time" where
  "Add t d = t\<lparr>instant := instant t + d\<rparr>"

text \<open>
  \<^verbatim>\<open>url.Values\<close> is \<^verbatim>\<open>map[string][]string\<close>. A URL is kept with its query
  already parsed: \<^verbatim>\<open>u.Query()\<close> reads the field, and
  \<^verbatim>\<open>u.RawQuery = query.Encode()\<close> stores it (the values written by the code are
  all singleton lists, which \<^verbatim>\<open>Encode\<close> and \<^verbatim>\<open>ParseQuery\<close> carry through).
  \<open>Path\<close> is the field of that name. \<open>EscapedPath\<close> is the string the method
  \<^verbatim>\<open>EscapedPath()\<close> returns for the URL as \<^verbatim>\<open>url.Parse\<close> made it: the first file
  calls the method and never writes the path; the second file writes \<^verbatim>\<open>Path\<close> and
  never calls the method.
\<close>

type_synonym Values = "string \<rightharpoonup> string list"

record url =
  Host :: string
  Path :: string
  EscapedPath :: string
  RawQuery :: Values

text \<open>Indexing a Go map at a missing key gives the zero value, here the nil slice.\<close>

definition values_index :: "Values \<Rightarrow> string \<Rightarrow> string list" where
  "values_index q k = (case q k of None \<Rightarrow> [] | Some vs \<Rightarrow> vs)"

record timeseries =
  StartName :: string
  EndName :: string
  Period :: "32 word"
  Layout :: "string option"

type_synonym bytes = string
type_synonym client = nat
type_synonym repo = nat
type_synonym limiter_ref = nat
type_synonym logger = nat

datatype error =
    StartNameRequired
  | EndNameRequired
  | TimeParseError string string
  | JoinPathError string string
  | ParseURLError string
  | ChunksError
  | ConnectError error
  | RepositoriesError error
  | RequiredField string
  | External string
  | PanicIndexOutOfRange
  | PanicNilMapAssign
  | PanicNilFunc
  | PanicNilDeref

record APIKey =
  Passphrase :: string
  Key :: string
  Secret :: string

record Authentication =
  auth_APIKey :: "APIKey option"

record Request =
  Method :: string
  Endpoint :: string
  RateLimitBurstCap :: int
  Query :: "(string \<rightharpoonup> string) option"
  Timeseries :: "timeseries option"
  Table :: "string option"

text \<open>\<^verbatim>\<open>Period\<close> is a \<^verbatim>\<open>*time.Duration\<close>, a 64-bit count of nanoseconds.\<close>

record RateLimitConfig =
  Burst :: "int option"
  rl_Period :: "64 word option"

record Config =
  cfg_URL :: string
  Authentication :: Authentication
  DNSList :: "string list"
  Requests :: "Request list"
  cfg_RateLimitConfig :: "RateLimitConfig option"
  Logger :: "logger option"
  Truncate :: bool

text \<open>
  \<^verbatim>\<open>web.FetchConfig\<close> as the code fills it. A \<^verbatim>\<open>*rate.Limiter\<close> is an address in
  a store of limiters, so that two requests holding the same limiter hold the same address.
\<close>

record FetchConfig =
  fc_Client :: "client option"
  fc_Method :: string
  fc_URL :: url
  fc_RateLimiter :: limiter_ref

record flattenedRequest =
  fetchConfig :: FetchConfig
  table :: "string option"

record repoJob =
  job_b :: bytes
  job_url :: url
  job_table :: "string option"

text \<open>
  A limiter made by \<^verbatim>\<open>rate.NewLimiter(rate.Every(d), b)\<close> is kept as the duration
  \<open>d\<close> passed to \<^verbatim>\<open>rate.Every\<close> and the burst \<open>b\<close>. The store is the list of the
  limiters allocated so far and an address is a position in it.
\<close>

record limiter =
  lim_every :: "64 word"
  lim_burst :: int

type_synonym limiter_store = "limiter list"

definition NewLimiter :: "limiter_store \<Rightarrow> 64 word \<Rightarrow> int \<Rightarrow> limiter_ref \<times> limiter_store" where
  "NewLimiter h every burst = (length h, h @ [\<lparr>lim_every = every, lim_burst = burst\<rparr>])"

text \<open>
  The collaborators the package calls and whose code is outside of it: the standard
  library's \<^verbatim>\<open>time.Parse\<close> (layout, value), \<^verbatim>\<open>Time.Format\<close>, \<^verbatim>\<open>url.JoinPath\<close> and
  \<^verbatim>\<open>url.Parse\<close>, and \<^verbatim>\<open>web.NewClient\<close>, \<^verbatim>\<open>storage.New\<close> followed by
  \<^verbatim>\<open>repository.New\<close>, \<^verbatim>\<open>web.Fetch\<close>, \<^verbatim>\<open>UpsertJSON\<close> (repository, table, payload;
  \<open>None\<close> is success) and the JSON round trip of \<^verbatim>\<open>coinbasepro.Candles\<close> that
  sets the product identifier.
\<close>

record env =
  time_Parse :: "string \<Rightarrow> string \<Rightarrow> time option"
  time_Format :: "string \<Rightarrow> time \<Rightarrow> string"
  url_JoinPath :: "string \<Rightarrow> string \<Rightarrow> string option"
  url_Parse :: "string \<Rightarrow> url option"
  web_NewClient :: "string \<Rightarrow> APIKey \<Rightarrow> error + client option"
  storage_New :: "string \<Rightarrow> error + repo"
  web_Fetch :: "FetchConfig \<Rightarrow> error + bytes"
  UpsertJSON :: "repo \<Rightarrow> string \<Rightarrow> bytes \<Rightarrow> error option"
  candles_json :: "string \<Rightarrow> bytes \<Rightarrow> error + bytes"

definition RFC3339 :: string where
  "RFC3339 = ''2006-01-02T15:04:05Z07:00''"

section \<open>timeseries.chunks\<close>

text \<open>
  The loop of lines 79 to 87. With a period that is not positive and \<open>start < end\<close>
  the loop never ends, so the function is partial: not returning is \<open>None\<close>.
  \<open>d\<close> is \<^verbatim>\<open>time.Second * time.Duration(ts.Period)\<close> in nanoseconds.
\<close>

partial_function (option) chunks_loop ::
  "int \<Rightarrow> time \<Rightarrow> time \<Rightarrow> (time \<times> time) list \<Rightarrow> (time \<times> time) list option" where
  "chunks_loop d start end chunks =
     (if Before start end then
        (let next = Add start d in
         if Before next end then chunks_loop d next end (chunks @ [(start, next)])
         else chunks_loop d next end (chunks @ [(start, end)]))
      else Some chunks)"

text \<open>
  \<^verbatim>\<open>time.Second * time.Duration(ts.Period)\<close>: the \<^verbatim>\<open>int32\<close> is widened to
  \<^verbatim>\<open>int64\<close> and the product is below \<open>2^63\<close> in absolute value.
\<close>

definition period_duration :: "timeseries \<Rightarrow> int" where
  "period_duration ts = 1000000000 * sint (Period ts)"

text \<open>Lines 53 to 56: the layout in force, RFC3339 when none is set.\<close>

definition layout_or_default :: "timeseries \<Rightarrow> string" where
  "layout_or_default ts = (case Layout ts of None \<Rightarrow> RFC3339 | Some l \<Rightarrow> l)"

text \<open>
  \<^verbatim>\<open>chunks\<close> writes the default layout through the receiver pointer, so the
  updated \<open>timeseries\<close> is part of the result. \<open>parse\<close> is \<^verbatim>\<open>time.Parse\<close>
  (layout first, \<open>None\<close> for its error).
\<close>

definition chunks ::
  "(string \<Rightarrow> string \<Rightarrow> time option) \<Rightarrow> timeseries \<Rightarrow> url
     \<Rightarrow> (timeseries \<times> (error + (time \<times> time) list)) option" where
  "chunks parse ts0 u =
     (let layout = layout_or_default ts0;
          ts = ts0\<lparr>Layout := Some layout\<rparr>;
          query = RawQuery u;
          startSlice = values_index query (StartName ts)
      in if length startSlice \<noteq> 1 then Some (ts, Inl StartNameRequired)
         else case parse layout (hd startSlice) of
           None \<Rightarrow> Some (ts, Inl (TimeParseError layout (hd startSlice)))
         | Some start \<Rightarrow>
             (let endSlice = values_index query (EndName ts)
              in if length endSlice \<noteq> 1 then Some (ts, Inl EndNameRequired)
                 else case parse layout (hd endSlice) of
                   None \<Rightarrow> Some (ts, Inl (TimeParseError layout (hd endSlice)))
                 | Some end \<Rightarrow>
                     (case chunks_loop (period_duration ts) start end [] of
                        None \<Rightarrow> None
                      | Some cs \<Rightarrow> Some (ts, Inr cs))))"

section \<open>Config: validate, connect, repositories\<close>

text \<open>
  The logger of the configuration is a pointer that may be nil. Calling \<^verbatim>\<open>Info\<close> on a
  logger that is set has no effect on what is computed, and calling it through a nil
  pointer panics. The workers are started after the first such call, so they hold a
  logger that is set; its \<^verbatim>\<open>Fatal\<close> is the end of a worker's run below.
\<close>

definition RateLimitConfig_validate :: "RateLimitConfig \<Rightarrow> error option" where
  "RateLimitConfig_validate rl =
     (if Burst rl = None then Some (RequiredField ''Burst'')
      else if rl_Period rl = None then Some (RequiredField ''Period'')
      else None)"

definition validate :: "Config \<Rightarrow> error option" where
  "validate cfg =
     (case cfg_RateLimitConfig cfg of
        None \<Rightarrow> Some (RequiredField ''RateLimitConfig'')
      | Some rl \<Rightarrow> RateLimitConfig_validate rl)"

text \<open>Lines 151 to 160: without an API key the result is \<^verbatim>\<open>nil, nil\<close>.\<close>

definition connect :: "env \<Rightarrow> Config \<Rightarrow> error + client option" where
  "connect E cfg =
     (case auth_APIKey (Authentication cfg) of
        Some apiKey \<Rightarrow> web_NewClient E (cfg_URL cfg) apiKey
      | None \<Rightarrow> Inr None)"

fun repositories_loop :: "env \<Rightarrow> string list \<Rightarrow> repo list \<Rightarrow> error + repo list" where
  "repositories_loop E [] repos = Inr repos"
| "repositories_loop E (dns # rest) repos =
     (case storage_New E dns of
        Inl err \<Rightarrow> Inl (RepositoriesError err)
      | Inr stg \<Rightarrow> repositories_loop E rest (repos @ [stg]))"

definition repositories :: "env \<Rightarrow> Config \<Rightarrow> error + repo list" where
  "repositories E cfg = repositories_loop E (DNSList cfg) []"

section \<open>newFetchConfig and the flattening loop of Upsert\<close>

text \<open>
  Lines 203 to 205: \<^verbatim>\<open>query.Set(n, v)\<close> for every entry of the request's map. The
  keys of a map are distinct, so the order of the iteration does not show in the result.
\<close>

definition query_set_all :: "Values \<Rightarrow> (string \<rightharpoonup> string) \<Rightarrow> Values" where
  "query_set_all query q = (\<lambda>n. case q n of None \<Rightarrow> query n | Some v \<Rightarrow> Some [v])"

definition newFetchConfig ::
  "env \<Rightarrow> Config \<Rightarrow> Request \<Rightarrow> client option \<Rightarrow> limiter_ref \<Rightarrow> error + FetchConfig" where
  "newFetchConfig E cfg req cl rl =
     (case url_JoinPath E (cfg_URL cfg) (Endpoint req) of
        None \<Rightarrow> Inl (JoinPathError (cfg_URL cfg) (Endpoint req))
      | Some rawURL \<Rightarrow>
          (case url_Parse E rawURL of
             None \<Rightarrow> Inl (ParseURLError rawURL)
           | Some u \<Rightarrow>
               Inr \<lparr>fc_Client = cl, fc_Method = Method req,
                    fc_URL = (case Query req of
                                None \<Rightarrow> u
                              | Some q \<Rightarrow> u\<lparr>RawQuery := query_set_all (RawQuery u) q\<rparr>),
                    fc_RateLimiter = rl\<rparr>))"

text \<open>
  Lines 355 to 370. \<^verbatim>\<open>chunkReq := req\<close> copies the pointer, so the two writes to
  \<^verbatim>\<open>chunkReq.Query\<close> go to the map of the request itself: the request is threaded
  through the loop and returned. Writing to a nil map panics.
\<close>

fun flatten_chunks ::
  "env \<Rightarrow> Config \<Rightarrow> client option \<Rightarrow> limiter_ref \<Rightarrow> timeseries \<Rightarrow> (time \<times> time) list
     \<Rightarrow> Request \<Rightarrow> flattenedRequest list \<Rightarrow> Request \<times> (error + flattenedRequest list)" where
  "flatten_chunks E cfg cl rl ts [] req flattenedRequests = (req, Inr flattenedRequests)"
| "flatten_chunks E cfg cl rl ts (chunk # rest) req flattenedRequests =
     (case Layout ts of
        None \<Rightarrow> (req, Inl PanicNilDeref)
      | Some layout \<Rightarrow>
          (case Query req of
             None \<Rightarrow> (req, Inl PanicNilMapAssign)
           | Some q \<Rightarrow>
               (let q1 = q(StartName ts \<mapsto> time_Format E layout (fst chunk));
                    q2 = q1(EndName ts \<mapsto> time_Format E layout (snd chunk));
                    chunkReq = req\<lparr>Query := Some q2\<rparr>
                in case newFetchConfig E cfg chunkReq cl rl of
                     Inl err \<Rightarrow> (chunkReq, Inl err)
                   | Inr chunkedFetchConfig \<Rightarrow>
                       flatten_chunks E cfg cl rl ts rest chunkReq
                         (flattenedRequests @
                            [\<lparr>fetchConfig = chunkedFetchConfig, table = Table chunkReq\<rparr>]))))"

text \<open>
  The body of the loop of lines 343 to 377 for one request: the request as the loop leaves
  it, and the error returned or the list of flattened requests extended.
\<close>

definition flatten_request ::
  "env \<Rightarrow> Config \<Rightarrow> client option \<Rightarrow> limiter_ref \<Rightarrow> Request \<Rightarrow> flattenedRequest list
     \<Rightarrow> (Request \<times> (error + flattenedRequest list)) option" where
  "flatten_request E cfg cl rl req flattenedRequests =
     (case newFetchConfig E cfg req cl rl of
        Inl err \<Rightarrow> Some (req, Inl err)
      | Inr fc \<Rightarrow>
          (case Timeseries req of
             None \<Rightarrow> Some (req, Inr (flattenedRequests @ [\<lparr>fetchConfig = fc, table = Table req\<rparr>]))
           | Some ts0 \<Rightarrow>
               (case chunks (time_Parse E) ts0 (fc_URL fc) of
                  None \<Rightarrow> None
                | Some (ts, Inl err) \<Rightarrow> Some (req\<lparr>Timeseries := Some ts\<rparr>, Inl ChunksError)
                | Some (ts, Inr cs) \<Rightarrow>
                    Some (flatten_chunks E cfg cl rl ts cs (req\<lparr>Timeseries := Some ts\<rparr>)
                            flattenedRequests))))"

fun flatten_requests ::
  "env \<Rightarrow> Config \<Rightarrow> client option \<Rightarrow> limiter_ref \<Rightarrow> Request list \<Rightarrow> flattenedRequest list
     \<Rightarrow> (Request list \<times> (error + flattenedRequest list)) option" where
  "flatten_requests E cfg cl rl [] flattenedRequests = Some ([], Inr flattenedRequests)"
| "flatten_requests E cfg cl rl (req # rest) flattenedRequests =
     (case flatten_request E cfg cl rl req flattenedRequests of
        None \<Rightarrow> None
      | Some (req', Inl err) \<Rightarrow> Some (req' # rest, Inl err)
      | Some (req', Inr frs) \<Rightarrow>
          (case flatten_requests E cfg cl rl rest frs of
             None \<Rightarrow> None
           | Some (rest', r) \<Rightarrow> Some (req' # rest', r)))"

text \<open>
  \<^verbatim>\<open>Upsert\<close> from its entry to the end of the flattening loop (lines 318 to 377): the
  requests of the configuration as the loop leaves them, the store of limiters, and either
  the error returned or what is handed to the workers (the client, the repositories and
  the flattened requests). \<open>None\<close> is a chunking loop that does not end. The log call
  of line 326 panics on a nil logger. The duration passed to \<^verbatim>\<open>rate.Every\<close> at line
  339 is the product \<^verbatim>\<open>*cfg.RateLimitConfig.Period*time.Second\<close> of two 64-bit
  values, which wraps.
\<close>

record plan =
  plan_client :: "client option"
  plan_repos :: "repo list"
  plan_rateLimiter :: limiter_ref
  plan_flattenedRequests :: "flattenedRequest list"

definition Upsert ::
  "env \<Rightarrow> limiter_store \<Rightarrow> Config \<Rightarrow> (Request list \<times> limiter_store \<times> (error + plan)) option" where
  "Upsert E h cfg =
     (case validate cfg of
        Some err \<Rightarrow> Some (Requests cfg, h, Inl err)
      | None \<Rightarrow>
          (case connect E cfg of
             Inl err \<Rightarrow> Some (Requests cfg, h, Inl (ConnectError err))
           | Inr cl \<Rightarrow>
               (case Logger cfg of
                  None \<Rightarrow> Some (Requests cfg, h, Inl PanicNilDeref)
                | Some lg \<Rightarrow>
               (case repositories E cfg of
                  Inl err \<Rightarrow> Some (Requests cfg, h, Inl err)
                | Inr repos \<Rightarrow>
                    (case cfg_RateLimitConfig cfg of
                       None \<Rightarrow> Some (Requests cfg, h, Inl PanicNilDeref)
                     | Some rlc \<Rightarrow>
                         (case (rl_Period rlc, Burst rlc) of
                            (Some period, Some burst) \<Rightarrow>
                              (let (rateLimiter, h') = NewLimiter h (period * 1000000000) burst
                               in case flatten_requests E cfg cl rateLimiter (Requests cfg) [] of
                                    None \<Rightarrow> None
                                  | Some (reqs, Inl err) \<Rightarrow> Some (reqs, h', Inl err)
                                  | Some (reqs, Inr frs) \<Rightarrow>
                                      Some (reqs, h',
                                            Inr \<lparr>plan_client = cl, plan_repos = repos,
                                                 plan_rateLimiter = rateLimiter,
                                                 plan_flattenedRequests = frs\<rparr>))
                          | _ \<Rightarrow> Some (Requests cfg, h, Inl PanicNilDeref)))))))"

section \<open>The workers\<close>

text \<open>
  \<^verbatim>\<open>strings.TrimPrefix\<close>, \<^verbatim>\<open>strings.Split\<close> at a separator of one byte (the code
  splits at \<^verbatim>\<open>"/"\<close>) and \<^verbatim>\<open>strings.Contains\<close>.
\<close>

definition strings_TrimPrefix :: "string \<Rightarrow> string \<Rightarrow> string" where
  "strings_TrimPrefix s prefix =
     (if take (length prefix) s = prefix then drop (length prefix) s else s)"

fun strings_Split :: "string \<Rightarrow> char \<Rightarrow> string list" where
  "strings_Split [] sep = [[]]"
| "strings_Split (c # s) sep =
     (if c = sep then [] # strings_Split s sep
      else (case strings_Split s sep of
              [] \<Rightarrow> [[c]]
            | part # parts \<Rightarrow> (c # part) # parts))"

fun strings_Contains :: "string \<Rightarrow> string \<Rightarrow> bool" where
  "strings_Contains [] substr = (substr = [])"
| "strings_Contains (c # s) substr =
     (take (length substr) (c # s) = substr \<or> strings_Contains s substr)"

text \<open>
  How a run of a worker ends: the channel of jobs is closed and the loop is left,
  \<^verbatim>\<open>logger.Fatal\<close> is called (logrus logs the entry and then exits the process with
  status 1), or the goroutine panics.
\<close>

datatype halt = ChannelClosed | Fatal error | Panic error

text \<open>
  The variable \<^verbatim>\<open>encodingCallback\<close> after the switch of lines 248 to 273: still nil,
  the function that returns the bytes of the job, or the one that decodes the candles and
  sets the product identifier.
\<close>

datatype encodingCallback = NilCallback | PassThrough | CandlesCallback string

text \<open>Lines 237 to 243: the table before the switch on it.\<close>

definition endpointParts :: "repoJob \<Rightarrow> string list" where
  "endpointParts job =
     strings_Split (strings_TrimPrefix (EscapedPath (job_url job)) ''/'') CHR ''/''"

definition default_table :: "repoJob \<Rightarrow> string" where
  "default_table job =
     (let parts = endpointParts job;
          table = parts ! (length parts - 1)
      in case job_table job of None \<Rightarrow> table | Some t \<Rightarrow> t)"

text \<open>
  Lines 237 to 273: the table handed to \<^verbatim>\<open>UpsertJSON\<close> and the callback. The two
  index expressions of lines 251 and 257 panic out of range.
\<close>

definition resolve_table :: "repoJob \<Rightarrow> error + (string \<times> encodingCallback)" where
  "resolve_table job =
     (let parts = endpointParts job;
          table = default_table job
      in if table = ''candles'' then
           (if strings_Contains (Host (job_url job)) ''coinbase.com'' then
              (case values_index (RawQuery (job_url job)) ''granularity'' of
                 [] \<Rightarrow> Inl PanicIndexOutOfRange
               | granularity # _ \<Rightarrow>
                   (let table' = (if granularity = ''60'' then ''candle_minutes'' else table)
                    in if length parts < 2 then Inl PanicIndexOutOfRange
                       else Inr (table', CandlesCallback (parts ! 1))))
            else Inr (table, NilCallback))
         else Inr (table, PassThrough))"

definition run_callback :: "env \<Rightarrow> encodingCallback \<Rightarrow> repoJob \<Rightarrow> halt + bytes" where
  "run_callback E cb job =
     (case cb of
        NilCallback \<Rightarrow> Inl (Panic PanicNilFunc)
      | PassThrough \<Rightarrow> Inr (job_b job)
      | CandlesCallback productID \<Rightarrow>
          (case candles_json E productID (job_b job) of
             Inl err \<Rightarrow> Inl (Fatal err)
           | Inr bs \<Rightarrow> Inr bs))"

text \<open>
  Lines 275 to 287, the loop over the repositories for one job: the upserts that
  succeeded, in order, and how the loop was left early, if it was.
\<close>

fun upsert_repositories ::
  "env \<Rightarrow> encodingCallback \<Rightarrow> repoJob \<Rightarrow> string \<Rightarrow> repo list
     \<Rightarrow> (repo \<times> string \<times> bytes) list \<times> halt option" where
  "upsert_repositories E cb job tbl [] = ([], None)"
| "upsert_repositories E cb job tbl (r # rs) =
     (case run_callback E cb job of
        Inl h \<Rightarrow> ([], Some h)
      | Inr bs \<Rightarrow>
          (case UpsertJSON E r tbl bs of
             Some err \<Rightarrow> ([], Some (Fatal err))
           | None \<Rightarrow>
               (case upsert_repositories E cb job tbl rs of
                  (done, h) \<Rightarrow> ((r, tbl, bs) # done, h))))"

text \<open>
  \<^verbatim>\<open>repositoryWorker\<close> on the jobs it receives, in the order it receives them: the
  upserts done, the number of values sent on \<^verbatim>\<open>done\<close>, and how the run ends.
\<close>

fun repositoryWorker ::
  "env \<Rightarrow> repo list \<Rightarrow> repoJob list \<Rightarrow> (repo \<times> string \<times> bytes) list \<times> nat \<times> halt" where
  "repositoryWorker E repos [] = ([], 0, ChannelClosed)"
| "repositoryWorker E repos (job # jobs) =
     (case resolve_table job of
        Inl p \<Rightarrow> ([], 0, Panic p)
      | Inr (tbl, cb) \<Rightarrow>
          (case upsert_repositories E cb job tbl repos of
             (done, Some h) \<Rightarrow> (done, 0, h)
           | (done, None) \<Rightarrow>
               (case repositoryWorker E repos jobs of
                  (done', n, h) \<Rightarrow> (done @ done', Suc n, h))))"

text \<open>
  \<^verbatim>\<open>webWorker\<close> on the jobs it receives: the jobs sent on \<^verbatim>\<open>repoJobs\<close> and how
  the run ends.
\<close>

fun webWorker :: "env \<Rightarrow> flattenedRequest list \<Rightarrow> repoJob list \<times> halt" where
  "webWorker E [] = ([], ChannelClosed)"
| "webWorker E (job # jobs) =
     (case web_Fetch E (fetchConfig job) of
        Inl err \<Rightarrow> ([], Fatal err)
      | Inr bs \<Rightarrow>
          (case webWorker E jobs of
             (sent, h) \<Rightarrow>
               (\<lparr>job_b = bs, job_url = fc_URL (fetchConfig job), job_table = table job\<rparr> # sent, h)))"

section \<open>Request.newFetchConfig, flatten and flattenTimeseries\<close>

text \<open>
  The second file of the package declares \<^verbatim>\<open>Request\<close> again, with a rate limit of its
  own, and its \<^verbatim>\<open>timeseries\<close> keeps the chunks in a field. The method
  \<^verbatim>\<open>timeseries.chunk\<close> that fills the field is not part of the file and is a parameter
  of \<open>flattenTimeseries\<close>, as is \<^verbatim>\<open>path.Join\<close>. Names of this file carry a prime.
\<close>

record timeseries' = timeseries +
  ts_chunks :: "(time \<times> time) list"

record Request' =
  Method' :: string
  Endpoint' :: string
  Query' :: "(string \<rightharpoonup> string) option"
  Timeseries' :: "timeseries' option"
  Table' :: string
  Truncate' :: "bool option"
  RateLimitConfig' :: "RateLimitConfig option"

record flattenedRequest' =
  fetchConfig' :: FetchConfig
  table' :: string

text \<open>
  Lines 464 to 488. The URL is received by value; the limiter is allocated in the call
  (line 480). Reading through a nil \<^verbatim>\<open>RateLimitConfig\<close>, \<^verbatim>\<open>Period\<close> or
  \<^verbatim>\<open>Burst\<close> panics.
\<close>

definition newFetchConfig' ::
  "(string \<Rightarrow> string \<Rightarrow> string) \<Rightarrow> limiter_store \<Rightarrow> Request' \<Rightarrow> url \<Rightarrow> client option
     \<Rightarrow> (error + FetchConfig) \<times> limiter_store" where
  "newFetchConfig' path_Join h req rurl0 cl =
     (let rurl1 = rurl0\<lparr>Path := path_Join (Path rurl0) (Endpoint' req)\<rparr>;
          rurl = (case Query' req of
                    None \<Rightarrow> rurl1
                  | Some q \<Rightarrow> rurl1\<lparr>RawQuery := query_set_all (RawQuery rurl1) q\<rparr>)
      in case RateLimitConfig' req of
           None \<Rightarrow> (Inl PanicNilDeref, h)
         | Some rlc \<Rightarrow>
             (case (rl_Period rlc, Burst rlc) of
                (Some period, Some burst) \<Rightarrow>
                  (let (rateLimiter, h') = NewLimiter h period burst
                   in (Inr \<lparr>fc_Client = cl, fc_Method = Method' req, fc_URL = rurl,
                            fc_RateLimiter = rateLimiter\<rparr>, h'))
              | _ \<Rightarrow> (Inl PanicNilDeref, h)))"

definition flatten' ::
  "(string \<Rightarrow> string \<Rightarrow> string) \<Rightarrow> limiter_store \<Rightarrow> Request' \<Rightarrow> url \<Rightarrow> client option
     \<Rightarrow> (error + flattenedRequest') \<times> limiter_store" where
  "flatten' path_Join h req rurl cl =
     (case newFetchConfig' path_Join h req rurl cl of
        (Inl p, h') \<Rightarrow> (Inl p, h')
      | (Inr fc, h') \<Rightarrow> (Inr \<lparr>fetchConfig' = fc, table' = Table' req\<rparr>, h'))"

text \<open>Lines 535 to 547; \<^verbatim>\<open>chunkReq := req\<close> copies the pointer here too.\<close>

fun flatten_chunks' ::
  "(string \<Rightarrow> string \<Rightarrow> string) \<Rightarrow> (string \<Rightarrow> time \<Rightarrow> string) \<Rightarrow> url \<Rightarrow> client option
     \<Rightarrow> timeseries' \<Rightarrow> (time \<times> time) list \<Rightarrow> limiter_store \<Rightarrow> Request' \<Rightarrow> flattenedRequest' list
     \<Rightarrow> Request' \<times> limiter_store \<times> (error + flattenedRequest' list)" where
  "flatten_chunks' path_Join format rurl cl ts [] h req requests = (req, h, Inr requests)"
| "flatten_chunks' path_Join format rurl cl ts (chunk # rest) h req requests =
     (case Layout ts of
        None \<Rightarrow> (req, h, Inl PanicNilDeref)
      | Some layout \<Rightarrow>
          (case Query' req of
             None \<Rightarrow> (req, h, Inl PanicNilMapAssign)
           | Some q \<Rightarrow>
               (let q1 = q(StartName ts \<mapsto> format layout (fst chunk));
                    q2 = q1(EndName ts \<mapsto> format layout (snd chunk));
                    chunkReq = req\<lparr>Query' := Some q2\<rparr>
                in case newFetchConfig' path_Join h chunkReq rurl cl of
                     (Inl p, h') \<Rightarrow> (chunkReq, h', Inl p)
                   | (Inr fc, h') \<Rightarrow>
                       flatten_chunks' path_Join format rurl cl ts rest h' chunkReq
                         (requests @ [\<lparr>fetchConfig' = fc, table' = Table' chunkReq\<rparr>]))))"

text \<open>
  Lines 511 to 550. \<open>chunk\<close> is \<^verbatim>\<open>timeseries.chunk\<close>: the \<open>timeseries\<close> as the
  call leaves it and the error returned, if any.
\<close>

definition flattenTimeseries' ::
  "(string \<Rightarrow> string \<Rightarrow> string) \<Rightarrow> (string \<Rightarrow> time \<Rightarrow> string)
     \<Rightarrow> (timeseries' \<Rightarrow> url \<Rightarrow> timeseries' \<times> error option)
     \<Rightarrow> limiter_store \<Rightarrow> Request' \<Rightarrow> url \<Rightarrow> client option
     \<Rightarrow> Request' \<times> limiter_store \<times> (error + flattenedRequest' list)" where
  "flattenTimeseries' path_Join format chunk h req rurl0 cl =
     (case Timeseries' req of
        None \<Rightarrow>
          (case flatten' path_Join h req rurl0 cl of
             (Inl p, h') \<Rightarrow> (req, h', Inl p)
           | (Inr flatReq, h') \<Rightarrow> (req, h', Inr [flatReq]))
      | Some ts0 \<Rightarrow>
          (let rurl = (case Query' req of
                         None \<Rightarrow> rurl0
                       | Some q \<Rightarrow> rurl0\<lparr>RawQuery := query_set_all (RawQuery rurl0) q\<rparr>)
           in case chunk ts0 rurl of
                (ts, Some err) \<Rightarrow> (req\<lparr>Timeseries' := Some ts\<rparr>, h, Inl ChunksError)
              | (ts, None) \<Rightarrow>
                  flatten_chunks' path_Join format rurl cl ts (ts_chunks ts) h
                    (req\<lparr>Timeseries' := Some ts\<rparr>) []))"

text \<open>The list the loop appends when the period is positive, by recursion on the distance left.\<close>

function chunk_list :: "int \<Rightarrow> time \<Rightarrow> time \<Rightarrow> (time \<times> time) list" where
  "chunk_list d start end =
     (if 0 < d \<and> instant start < instant end
      then (start, if instant start + d < instant end then Add start d else end)
             # chunk_list d (Add start d) end
      else [])"
  by pat_completeness auto
termination
  by (relation "measure (\<lambda>(d, s, e). nat (instant e - instant s))") (auto simp: Add_def)

declare chunk_list.simps [simp del]

section \<open>Sample inputs\<close>

text \<open>
  Values of \<^verbatim>\<open>time.Parse\<close> and \<^verbatim>\<open>Time.Format\<close> under RFC3339 at four instants
  (nanoseconds since 1970) in UTC, and of the other collaborators at two base URLs and one
  endpoint; the second base URL carries the bounds of a range in its own query.
\<close>

definition utc :: "int \<Rightarrow> time" where
  "utc n = \<lparr>instant = n, location = ''UTC''\<rparr>"

definition sample_times :: "(string \<times> int) list" where
  "sample_times =
     [(''2023-01-01T00:00:00Z'', 1672531200000000000),
      (''2023-01-01T01:00:00Z'', 1672534800000000000),
      (''2023-01-01T02:00:00Z'', 1672538400000000000),
      (''2023-01-01T02:30:00Z'', 1672540200000000000)]"

definition sample_Parse :: "string \<Rightarrow> string \<Rightarrow> time option" where
  "sample_Parse layout v =
     (if layout = RFC3339 then map_option utc (map_of sample_times v) else None)"

definition sample_Format :: "string \<Rightarrow> time \<Rightarrow> string" where
  "sample_Format layout t =
     (if location t = ''UTC''
      then (case map_of (map (\<lambda>(s, n). (n, s)) sample_times) (instant t) of
              None \<Rightarrow> []
            | Some s \<Rightarrow> s)
      else [])"

definition sample_url :: url where
  "sample_url = \<lparr>Host = ''api.exchange.coinbase.com'', Path = ''/products/BTC-USD/candles'',
                 EscapedPath = ''/products/BTC-USD/candles'', RawQuery = Map.empty\<rparr>"

definition sample_range_url :: "string \<Rightarrow> string \<Rightarrow> url" where
  "sample_range_url a b = sample_url\<lparr>RawQuery := [''start'' \<mapsto> [a], ''end'' \<mapsto> [b]]\<rparr>"

text \<open>A fetch that fails for every method but GET, an upsert that fails at repository 0.\<close>

definition sample_Fetch :: "FetchConfig \<Rightarrow> error + bytes" where
  "sample_Fetch fc = (if fc_Method fc = ''GET'' then Inr ''[]'' else Inl (External ''405''))"

definition sample_UpsertJSON :: "repo \<Rightarrow> string \<Rightarrow> bytes \<Rightarrow> error option" where
  "sample_UpsertJSON r t b = (if r = 0 then Some (External ''down'') else None)"

definition sample_candles_json :: "string \<Rightarrow> bytes \<Rightarrow> error + bytes" where
  "sample_candles_json productID b = (if b = ''{'' then Inl (External ''json'') else Inr b)"

definition sample_JoinPath :: "string \<Rightarrow> string \<Rightarrow> string option" where
  "sample_JoinPath base elem =
     (if elem = ''/products/BTC-USD/candles'' then
        (if base = ''https://api.exchange.coinbase.com'' then Some ''u''
         else if base = ''https://api.exchange.coinbase.com?start=2023-01-01T00:00:00Z&end=2023-01-01T02:00:00Z''
         then Some ''v'' else None)
      else None)"

definition sample_url_Parse :: "string \<Rightarrow> url option" where
  "sample_url_Parse raw =
     (if raw = ''u'' then Some sample_url
      else if raw = ''v'' then Some (sample_range_url ''2023-01-01T00:00:00Z'' ''2023-01-01T02:00:00Z'')
      else None)"

definition sample_NewClient :: "string \<Rightarrow> APIKey \<Rightarrow> error + client option" where
  "sample_NewClient u k = (if Key k = [] then Inl (External ''key'') else Inr (Some 0))"

definition sample_storage_New :: "string \<Rightarrow> error + repo" where
  "sample_storage_New dns = Inr (length dns)"

definition sample_env :: env where
  "sample_env =
     \<lparr>time_Parse = sample_Parse,
      time_Format = sample_Format,
      url_JoinPath = sample_JoinPath,
      url_Parse = sample_url_Parse,
      web_NewClient = sample_NewClient,
      storage_New = sample_storage_New,
      web_Fetch = sample_Fetch,
      UpsertJSON = sample_UpsertJSON,
      candles_json = sample_candles_json\<rparr>"

definition sample_ts :: timeseries where
  "sample_ts = \<lparr>StartName = ''start'', EndName = ''end'', Period = 3600, Layout = None\<rparr>"

definition sample_query :: "string \<rightharpoonup> string" where
  "sample_query = [''granularity'' \<mapsto> ''60'', ''start'' \<mapsto> ''2023-01-01T00:00:00Z'',
                   ''end'' \<mapsto> ''2023-01-01T02:00:00Z'']"

definition sample_request :: Request where
  "sample_request =
     \<lparr>Method = ''GET'', Endpoint = ''/products/BTC-USD/candles'', RateLimitBurstCap = 0,
      Query = Some sample_query, Timeseries = Some sample_ts, Table = None\<rparr>"

definition sample_config :: Config where
  "sample_config =
     \<lparr>cfg_URL = ''https://api.exchange.coinbase.com'',
      Authentication = \<lparr>auth_APIKey = None\<rparr>,
      DNSList = [''a'', ''bc''],
      Requests = [sample_request],
      cfg_RateLimitConfig = Some \<lparr>Burst = Some 10, rl_Period = Some 1\<rparr>,
      Logger = Some 0,
      Truncate = False\<rparr>"



definition sample_reversed_request :: Request where
  "sample_reversed_request =
     sample_request\<lparr>Query := Some [''start'' \<mapsto> ''2023-01-01T02:00:00Z'',
                                   ''end'' \<mapsto> ''2023-01-01T01:00:00Z'']\<rparr>"




definition sample_fr :: "string \<Rightarrow> flattenedRequest" where
  "sample_fr m =
     \<lparr>fetchConfig = \<lparr>fc_Client = None, fc_Method = m, fc_URL = sample_url, fc_RateLimiter = 0\<rparr>,
      table = None\<rparr>"

definition sample_granularity :: "string \<Rightarrow> Values" where
  "sample_granularity g = [''granularity'' \<mapsto> [g]]"

definition sample_repoJob :: "string \<Rightarrow> Values \<Rightarrow> string option \<Rightarrow> bytes \<Rightarrow> repoJob" where
  "sample_repoJob p q t bs =
     \<lparr>job_b = bs,
      job_url = \<lparr>Host = ''api.exchange.coinbase.com'', Path = p, EscapedPath = p, RawQuery = q\<rparr>,
      job_table = t\<rparr>"

text \<open>
  For the second file: \<^verbatim>\<open>path.Join\<close> at two clean elements, a chunker that stores what
  \<open>chunks\<close> returns, and a request with a rate limit of its own.
\<close>

definition sample_path_Join :: "string \<Rightarrow> string \<Rightarrow> string" where
  "sample_path_Join a b = a @ ''/'' @ b"

definition sample_chunk :: "timeseries' \<Rightarrow> url \<Rightarrow> timeseries' \<times> error option" where
  "sample_chunk ts u =
     (case chunks sample_Parse
             \<lparr>StartName = StartName ts, EndName = EndName ts, Period = Period ts, Layout = Layout ts\<rparr> u of
        None \<Rightarrow> (ts, Some ChunksError)
      | Some (t, Inl err) \<Rightarrow> (ts\<lparr>Layout := Layout t\<rparr>, Some err)
      | Some (t, Inr cs) \<Rightarrow> (ts\<lparr>Layout := Layout t, ts_chunks := cs\<rparr>, None))"

definition sample_base_url :: url where
  "sample_base_url = \<lparr>Host = ''api.exchange.coinbase.com'', Path = ''/products/BTC-USD'',
                      EscapedPath = ''/products/BTC-USD'', RawQuery = Map.empty\<rparr>"

definition sample_ts' :: timeseries' where
  "sample_ts' = \<lparr>StartName = ''start'', EndName = ''end'', Period = 3600, Layout = None,
                 ts_chunks = []\<rparr>"

definition sample_request' :: Request' where
  "sample_request' =
     \<lparr>Method' = ''GET'', Endpoint' = ''candles'', Query' = Some sample_query,
      Timeseries' = Some sample_ts', Table' = ''candles'', Truncate' = None,
      RateLimitConfig' = Some \<lparr>Burst = Some 10, rl_Period = Some 1000000000\<rparr>\<rparr>"

text \<open>\<^verbatim>\<open>req.Query[n]\<close> with the presence of the key, nothing when the map is nil.\<close>

definition Query_lookup :: "Request \<Rightarrow> string \<Rightarrow> string option" where
  "Query_lookup req n = (case Query req of None \<Rightarrow> None | Some q \<Rightarrow> q n)"

section \<open>Properties of the chunking loop\<close>

lemma Add_simps [simp]:
  "instant (Add t d) = instant t + d"
  "location (Add t d) = location t"
  "Add t 0 = t"
  "Add (Add t d) d' = Add t (d + d')"
  by (simp_all add: Add_def)

lemma chunks_loop_eq:
  "0 < d \<Longrightarrow> chunks_loop d s e acc = Some (acc @ chunk_list d s e)"
proof (induction d s e arbitrary: acc rule: chunk_list.induct)
  case (1 d s e)
  show ?case
  proof (cases "instant s < instant e")
    case True
    with 1 show ?thesis
      by (subst chunks_loop.simps, subst chunk_list.simps) (simp add: Let_def Before_def)
  next
    case False
    then show ?thesis
      by (subst chunks_loop.simps, subst chunk_list.simps) (simp add: Before_def)
  qed
qed

lemma chunk_list_nth:
  "i < length (chunk_list d s e) \<Longrightarrow>
     chunk_list d s e ! i =
       (Add s (int i * d),
        if instant s + (int i + 1) * d < instant e then Add s ((int i + 1) * d) else e)
     \<and> instant s + int i * d < instant e"
proof (induction d s e arbitrary: i rule: chunk_list.induct)
  case (1 d s e)
  from "1.prems" have g: "0 < d \<and> instant s < instant e"
    by (subst (asm) chunk_list.simps) (simp split: if_splits)
  show ?case
  proof (cases i)
    case 0
    with g show ?thesis by (subst chunk_list.simps) simp
  next
    case (Suc j)
    with "1.prems" g have "j < length (chunk_list d (Add s d) e)"
      by (subst (asm) chunk_list.simps) simp
    from "1.IH"[OF g this] Suc g show ?thesis
      by (subst chunk_list.simps) (simp add: algebra_simps)
  qed
qed

lemma chunk_list_Suc_lt:
  "Suc i < length (chunk_list d s e) \<Longrightarrow> instant s + (int i + 1) * d < instant e"
  using chunk_list_nth[of "Suc i" d s e] by (simp add: algebra_simps)

lemma chunk_list_last:
  "0 < d \<Longrightarrow> instant s < instant e \<Longrightarrow>
   chunk_list d s e \<noteq> [] \<and> snd (last (chunk_list d s e)) = e"
proof (induction d s e rule: chunk_list.induct)
  case (1 d s e)
  show ?case
  proof (cases "instant s + d < instant e")
    case True
    with 1 show ?thesis by (subst (1 2) chunk_list.simps) simp
  next
    case False
    then have "chunk_list d (Add s d) e = []" by (subst chunk_list.simps) simp
    with 1 False show ?thesis by (subst (1 2) chunk_list.simps) simp
  qed
qed


lemma layout_or_default_eq:
  "layout_or_default ts = (case Layout ts of None \<Rightarrow> ''2006-01-02T15:04:05Z07:00'' | Some l \<Rightarrow> l)"
  by (simp add: layout_or_default_def RFC3339_def split: option.splits)

lemma chunks_parsed:
  assumes "values_index (RawQuery u) (StartName ts) = [sv]"
    and "values_index (RawQuery u) (EndName ts) = [ev]"
    and "parse (layout_or_default ts) sv = Some s"
    and "parse (layout_or_default ts) ev = Some e"
  shows "chunks parse ts u =
           (case chunks_loop (1000000000 * sint (Period ts)) s e [] of
              None \<Rightarrow> None
            | Some cs \<Rightarrow> Some (ts\<lparr>Layout := Some (layout_or_default ts)\<rparr>, Inr cs))"
  using assms by (simp add: chunks_def Let_def period_duration_def)

section \<open>The chunker\<close>

text \<open>
  C1. When the start and the end parameter each appear once in the query and parse, under
  the configured layout or RFC3339 when none is configured, to \<open>s\<close> before \<open>e\<close>, and
  the period of \<open>p\<close> seconds is positive, \<open>chunks\<close> returns without an error a
  non-empty list of chunks that starts at \<open>s\<close>, ends at \<open>e\<close>, in which every chunk
  begins where the one before it ends (so the chunks tile \<open>[s, e)\<close> in order, without
  gap or overlap), every chunk is non-empty and at most \<open>p\<close> seconds
  (\<open>1000000000 * p\<close> nanoseconds) long, and every chunk but the last is exactly that
  long.
\<close>

theorem chunks_tile_range:
  assumes start: "values_index (RawQuery u) (StartName ts) = [sv]"
    and "end": "values_index (RawQuery u) (EndName ts) = [ev]"
    and lay: "layout = (case Layout ts of None \<Rightarrow> ''2006-01-02T15:04:05Z07:00'' | Some l \<Rightarrow> l)"
    and ps: "parse layout sv = Some s"
    and pe: "parse layout ev = Some e"
    and lt: "instant s < instant e"
    and pos: "0 < sint (Period ts)"
  shows "\<exists>cs. chunks parse ts u = Some (ts\<lparr>Layout := Some layout\<rparr>, Inr cs)
           \<and> cs \<noteq> [] \<and> fst (hd cs) = s \<and> snd (last cs) = e
           \<and> (\<forall>i. Suc i < length cs \<longrightarrow> snd (cs ! i) = fst (cs ! Suc i))
           \<and> (\<forall>i < length cs. instant (fst (cs ! i)) < instant (snd (cs ! i))
                  \<and> instant (snd (cs ! i)) - instant (fst (cs ! i))
                        \<le> 1000000000 * sint (Period ts))
           \<and> (\<forall>i. Suc i < length cs \<longrightarrow>
                  instant (snd (cs ! i)) - instant (fst (cs ! i))
                    = 1000000000 * sint (Period ts))"
proof -
  define d where "d = 1000000000 * sint (Period ts)"
  define cs where "cs = chunk_list d s e"
  have l: "layout_or_default ts = layout" using lay by (simp add: layout_or_default_eq)
  have d: "0 < d" using pos by (simp add: d_def)
  have run: "chunks parse ts u = Some (ts\<lparr>Layout := Some layout\<rparr>, Inr cs)"
    using chunks_parsed[where parse=parse and ts=ts, unfolded l, OF start "end" ps pe]
      chunks_loop_eq[OF d, of s e "[]"]
    by (simp add: d_def cs_def)
  have ne: "cs \<noteq> []" and lst: "snd (last cs) = e"
    using chunk_list_last[OF d lt] by (simp_all add: cs_def)
  have nth: "cs ! i = (Add s (int i * d),
                       if instant s + (int i + 1) * d < instant e
                       then Add s ((int i + 1) * d) else e)
               \<and> instant s + int i * d < instant e" if "i < length cs" for i
    using chunk_list_nth[of i d s e] that by (simp add: cs_def)
  have full: "instant s + (int i + 1) * d < instant e" if "Suc i < length cs" for i
    using chunk_list_Suc_lt[of i d s e] that by (simp add: cs_def)
  have hd: "fst (hd cs) = s"
    using nth[of 0] ne by (simp add: hd_conv_nth)
  have adj: "\<forall>i. Suc i < length cs \<longrightarrow> snd (cs ! i) = fst (cs ! Suc i)"
  proof (intro allI impI)
    fix i assume i: "Suc i < length cs"
    then have "i < length cs" by simp
    from nth[OF this] nth[OF i] full[OF i] show "snd (cs ! i) = fst (cs ! Suc i)"
      by (simp add: algebra_simps)
  qed
  have len: "\<forall>i < length cs. instant (fst (cs ! i)) < instant (snd (cs ! i))
                \<and> instant (snd (cs ! i)) - instant (fst (cs ! i)) \<le> d"
  proof (intro allI impI)
    fix i assume i: "i < length cs"
    from nth[OF i] d show "instant (fst (cs ! i)) < instant (snd (cs ! i))
                \<and> instant (snd (cs ! i)) - instant (fst (cs ! i)) \<le> d"
      by (simp add: algebra_simps)
  qed
  have eq: "\<forall>i. Suc i < length cs \<longrightarrow> instant (snd (cs ! i)) - instant (fst (cs ! i)) = d"
  proof (intro allI impI)
    fix i assume i: "Suc i < length cs"
    then have "i < length cs" by simp
    from nth[OF this] full[OF i] show "instant (snd (cs ! i)) - instant (fst (cs ! i)) = d"
      by (simp add: algebra_simps)
  qed
  from run ne hd lst adj len eq show ?thesis
    unfolding d_def by blast
qed

text \<open>
  C8. When the bounds parse to \<open>s\<close> and \<open>e\<close> with \<open>s \<ge> e\<close>, \<open>chunks\<close> returns
  the empty list of chunks and no error, whatever the period; a request with this
  timeseries then adds no flattened request in the loop of \<open>Upsert\<close>, so nothing is
  fetched for it.
\<close>

theorem chunks_empty_range:
  assumes start: "values_index (RawQuery u) (StartName ts) = [sv]"
    and "end": "values_index (RawQuery u) (EndName ts) = [ev]"
    and ps: "parse (layout_or_default ts) sv = Some s"
    and pe: "parse (layout_or_default ts) ev = Some e"
    and ge: "instant e \<le> instant s"
  shows "chunks parse ts u = Some (ts\<lparr>Layout := Some (layout_or_default ts)\<rparr>, Inr [])
         \<and> (Timeseries req = Some ts \<and> newFetchConfig E cfg req cl rl = Inr fc
              \<and> fc_URL fc = u \<and> time_Parse E = parse \<longrightarrow>
             flatten_request E cfg cl rl req frs
               = Some (req\<lparr>Timeseries := Some (ts\<lparr>Layout := Some (layout_or_default ts)\<rparr>)\<rparr>,
                       Inr frs))"
proof -
  have "chunks_loop (1000000000 * sint (Period ts)) s e [] = Some []"
    using ge by (subst chunks_loop.simps) (simp add: Before_def)
  with chunks_parsed[where parse=parse, OF start "end" ps pe]
  have c: "chunks parse ts u = Some (ts\<lparr>Layout := Some (layout_or_default ts)\<rparr>, Inr [])"
    by simp
  then show ?thesis
    by (auto simp: flatten_request_def)
qed


section \<open>The chunker on the sample inputs\<close>

lemma sample_simps:
  "values_index (RawQuery (sample_range_url a b)) (StartName sample_ts) = [a]"
  "values_index (RawQuery (sample_range_url a b)) (EndName sample_ts) = [b]"
  "layout_or_default sample_ts = RFC3339"
  by (simp_all add: sample_range_url_def sample_ts_def values_index_def layout_or_default_def)

lemma sample_Parse_simps:
  "sample_Parse RFC3339 ''2023-01-01T00:00:00Z'' = Some (utc 1672531200000000000)"
  "sample_Parse RFC3339 ''2023-01-01T01:00:00Z'' = Some (utc 1672534800000000000)"
  "sample_Parse RFC3339 ''2023-01-01T02:00:00Z'' = Some (utc 1672538400000000000)"
  "sample_Parse RFC3339 ''2023-01-01T02:30:00Z'' = Some (utc 1672540200000000000)"
  by (simp_all add: sample_Parse_def sample_times_def)

lemma utc_simps [simp]:
  "instant (utc n) = n" "location (utc n) = ''UTC''" "Add (utc n) d = utc (n + d)"
  "utc m = utc n \<longleftrightarrow> m = n"
  by (simp_all add: utc_def Add_def)

lemma sample_period: "(1000000000::int) * sint (Period sample_ts) = 3600000000000"
  by (simp add: sample_ts_def)

lemma sample_chunks:
  "chunks sample_Parse sample_ts (sample_range_url ''2023-01-01T00:00:00Z'' ''2023-01-01T02:30:00Z'')
     = Some (sample_ts\<lparr>Layout := Some RFC3339\<rparr>,
             Inr [(utc 1672531200000000000, utc 1672534800000000000),
                  (utc 1672534800000000000, utc 1672538400000000000),
                  (utc 1672538400000000000, utc 1672540200000000000)])"
  by (simp add: chunks_parsed[where parse=sample_Parse and s="utc 1672531200000000000"
                   and e="utc 1672540200000000000"]
       sample_simps sample_Parse_simps sample_period chunks_loop.simps Let_def Before_def)

text \<open>
  Witness of \<open>chunks_tile_range\<close>: two hours and a half in chunks of one hour, the
  period of 3600 seconds, with no layout configured.
\<close>

theorem chunks_tile_range_witness:
  "Layout sample_ts = None
   \<and> sample_Parse ''2006-01-02T15:04:05Z07:00'' ''2023-01-01T00:00:00Z'' = Some (utc 1672531200000000000)
   \<and> sample_Parse ''2006-01-02T15:04:05Z07:00'' ''2023-01-01T02:30:00Z'' = Some (utc 1672540200000000000)
   \<and> sint (Period sample_ts) = 3600
   \<and> (\<exists>cs. chunks sample_Parse sample_ts
              (sample_range_url ''2023-01-01T00:00:00Z'' ''2023-01-01T02:30:00Z'')
              = Some (sample_ts\<lparr>Layout := Some ''2006-01-02T15:04:05Z07:00''\<rparr>, Inr cs)
           \<and> cs \<noteq> [] \<and> fst (hd cs) = utc 1672531200000000000
           \<and> snd (last cs) = utc 1672540200000000000
           \<and> (\<forall>i. Suc i < length cs \<longrightarrow> snd (cs ! i) = fst (cs ! Suc i))
           \<and> (\<forall>i < length cs. instant (fst (cs ! i)) < instant (snd (cs ! i))
                  \<and> instant (snd (cs ! i)) - instant (fst (cs ! i)) \<le> 1000000000 * 3600)
           \<and> (\<forall>i. Suc i < length cs \<longrightarrow>
                  instant (snd (cs ! i)) - instant (fst (cs ! i)) = 1000000000 * 3600))"
proof -
  have h1: "values_index (RawQuery (sample_range_url ''2023-01-01T00:00:00Z'' ''2023-01-01T02:30:00Z''))
              (StartName sample_ts) = [''2023-01-01T00:00:00Z'']"
    and h2: "values_index (RawQuery (sample_range_url ''2023-01-01T00:00:00Z'' ''2023-01-01T02:30:00Z''))
              (EndName sample_ts) = [''2023-01-01T02:30:00Z'']"
    by (simp_all only: sample_simps)
  have n: "Layout sample_ts = None" by (simp add: sample_ts_def)
  then have l: "''2006-01-02T15:04:05Z07:00''
      = (case Layout sample_ts of None \<Rightarrow> ''2006-01-02T15:04:05Z07:00'' | Some l \<Rightarrow> l)"
    by simp
  have h3: "sample_Parse ''2006-01-02T15:04:05Z07:00'' ''2023-01-01T00:00:00Z''
              = Some (utc 1672531200000000000)"
    and h4: "sample_Parse ''2006-01-02T15:04:05Z07:00'' ''2023-01-01T02:30:00Z''
              = Some (utc 1672540200000000000)"
    using sample_Parse_simps by (simp_all add: RFC3339_def)
  have h5: "instant (utc 1672531200000000000) < instant (utc 1672540200000000000)" by simp
  have p: "sint (Period sample_ts) = 3600" by (simp add: sample_ts_def)
  then have h6: "0 < sint (Period sample_ts)" by simp
  from chunks_tile_range[where parse=sample_Parse, OF h1 h2 l h3 h4 h5 h6] n h3 h4 p
  show ?thesis by simp
qed

text \<open>Witness of \<open>chunks_empty_range\<close>: a start one hour after the end.\<close>

theorem chunks_empty_range_witness:
  "chunks sample_Parse sample_ts
      (sample_url\<lparr>RawQuery := query_set_all (RawQuery sample_url)
          [''start'' \<mapsto> ''2023-01-01T02:00:00Z'', ''end'' \<mapsto> ''2023-01-01T01:00:00Z'']\<rparr>)
     = Some (sample_ts\<lparr>Layout := Some (layout_or_default sample_ts)\<rparr>, Inr [])
   \<and> flatten_request sample_env sample_config None 0 sample_reversed_request []
     = Some (sample_reversed_request
               \<lparr>Timeseries := Some (sample_ts\<lparr>Layout := Some (layout_or_default sample_ts)\<rparr>)\<rparr>,
             Inr [])"
proof -
  let ?q = "[''start'' \<mapsto> ''2023-01-01T02:00:00Z'', ''end'' \<mapsto> ''2023-01-01T01:00:00Z'']"
  let ?u = "sample_url\<lparr>RawQuery := query_set_all (RawQuery sample_url) ?q\<rparr>"
  let ?fc = "\<lparr>fc_Client = None, fc_Method = ''GET'', fc_URL = ?u, fc_RateLimiter = 0\<rparr>"
  have h1: "values_index (RawQuery ?u) (StartName sample_ts) = [''2023-01-01T02:00:00Z'']"
    and h2: "values_index (RawQuery ?u) (EndName sample_ts) = [''2023-01-01T01:00:00Z'']"
    by (simp_all add: values_index_def query_set_all_def sample_ts_def)
  have h3: "sample_Parse (layout_or_default sample_ts) ''2023-01-01T02:00:00Z''
              = Some (utc 1672538400000000000)"
    and h4: "sample_Parse (layout_or_default sample_ts) ''2023-01-01T01:00:00Z''
              = Some (utc 1672534800000000000)"
    by (simp_all only: sample_simps sample_Parse_simps)
  have h5: "instant (utc 1672534800000000000) \<le> instant (utc 1672538400000000000)" by simp
  have fc: "newFetchConfig sample_env sample_config sample_reversed_request None 0 = Inr ?fc"
    by (simp add: newFetchConfig_def sample_env_def sample_config_def sample_request_def
          sample_reversed_request_def sample_JoinPath_def sample_url_Parse_def)
  have r: "Timeseries sample_reversed_request = Some sample_ts \<and>
           newFetchConfig sample_env sample_config sample_reversed_request None 0 = Inr ?fc \<and>
           fc_URL ?fc = ?u \<and> time_Parse sample_env = sample_Parse"
    using fc by (simp add: sample_reversed_request_def sample_request_def sample_env_def)
  from chunks_empty_range[where parse=sample_Parse and E=sample_env and cfg=sample_config
      and cl=None and rl=0 and fc="?fc" and req=sample_reversed_request and frs="[]",
      OF h1 h2 h3 h4 h5] r
  show ?thesis by blast
qed


section \<open>Flattening in Upsert\<close>

lemma newFetchConfig_Inr:
  "newFetchConfig E cfg req cl rl = Inr fc \<longleftrightarrow>
     (\<exists>raw u. url_JoinPath E (cfg_URL cfg) (Endpoint req) = Some raw \<and> url_Parse E raw = Some u
        \<and> fc = \<lparr>fc_Client = cl, fc_Method = Method req,
                 fc_URL = (case Query req of
                             None \<Rightarrow> u
                           | Some q \<Rightarrow> u\<lparr>RawQuery := query_set_all (RawQuery u) q\<rparr>),
                 fc_RateLimiter = rl\<rparr>)"
  by (auto simp: newFetchConfig_def split: option.splits)


text \<open>A request without a query map: the first chunk panics at the write to the nil map.\<close>

lemma flatten_chunks_nil_map:
  "Query req = None \<Longrightarrow> Layout ts = Some layout \<Longrightarrow>
   flatten_chunks E cfg cl rl ts (c # cs) req acc = (req, Inl PanicNilMapAssign)"
  by simp

text \<open>
  After a loop of at least one chunk that ends without an error, the query map of the
  request holds the formatted bounds of the last chunk.
\<close>

lemma flatten_chunks_last_bounds:
  assumes "flatten_chunks E cfg cl rl ts cs req acc = (req', Inr frs)"
    and "cs \<noteq> []" and "Layout ts = Some layout"
  shows "Query_lookup req' (EndName ts) = Some (time_Format E layout (snd (last cs)))
         \<and> (StartName ts \<noteq> EndName ts \<longrightarrow>
              Query_lookup req' (StartName ts) = Some (time_Format E layout (fst (last cs))))"
  using assms
proof (induction cs arbitrary: req acc)
  case Nil
  then show ?case by simp
next
  case (Cons c cs)
  from Cons.prems(1,3) obtain q fc where q: "Query req = Some q"
    and rest: "flatten_chunks E cfg cl rl ts cs
           (req\<lparr>Query := Some (q(StartName ts \<mapsto> time_Format E layout (fst c),
             EndName ts \<mapsto> time_Format E layout (snd c)))\<rparr>)
           (acc @ [\<lparr>fetchConfig = fc, table = Table req\<rparr>]) = (req', Inr frs)"
    by (auto simp: Let_def split: option.splits sum.splits)
  show ?case
  proof (cases cs)
    case Nil
    with rest show ?thesis by (auto simp: Query_lookup_def)
  next
    case (Cons c' cs')
    with Cons.IH[OF rest _ Cons.prems(3)] show ?thesis by simp
  qed
qed


section \<open>Flattening in the second file\<close>

lemma newFetchConfig'_ok:
  assumes "RateLimitConfig' req = Some rlc" and "rl_Period rlc = Some period" and "Burst rlc = Some burst"
  shows "\<exists>fc. newFetchConfig' path_Join h req rurl cl
           = (Inr fc, h @ [\<lparr>lim_every = period, lim_burst = burst\<rparr>])
         \<and> fc_RateLimiter fc = length h"
  using assms by (simp add: newFetchConfig'_def NewLimiter_def Let_def)

lemma flatten_chunks'_ok:
  assumes "RateLimitConfig' req = Some rlc" and "rl_Period rlc = Some period" and "Burst rlc = Some burst"
    and "Layout ts = Some layout"
    and "Query' req \<noteq> None"
  shows "\<exists>req' added. flatten_chunks' path_Join format rurl cl ts cs h req acc
            = (req', h @ replicate (length cs) \<lparr>lim_every = period, lim_burst = burst\<rparr>,
               Inr (acc @ added))
           \<and> map (\<lambda>fr. fc_RateLimiter (fetchConfig' fr)) added = [length h ..< length h + length cs]"
  using assms
proof (induction cs arbitrary: req acc h)
  case Nil
  then show ?case by simp
next
  case (Cons chunk rest)
  let ?l = "\<lparr>lim_every = period, lim_burst = burst\<rparr>"
  from Cons.prems(5) obtain q where q: "Query' req = Some q" by auto
  define chunkReq where "chunkReq = req\<lparr>Query' := Some (q(StartName ts \<mapsto> format layout (fst chunk),
       EndName ts \<mapsto> format layout (snd chunk)))\<rparr>"
  have rc: "RateLimitConfig' chunkReq = Some rlc" and qn: "Query' chunkReq \<noteq> None"
    using Cons.prems(1) by (simp_all add: chunkReq_def)
  from newFetchConfig'_ok[OF rc Cons.prems(2,3), of path_Join h rurl cl]
  obtain fc where fc: "newFetchConfig' path_Join h chunkReq rurl cl = (Inr fc, h @ [?l])"
    and fcl: "fc_RateLimiter fc = length h" by blast
  have step: "flatten_chunks' path_Join format rurl cl ts (chunk # rest) h req acc =
          flatten_chunks' path_Join format rurl cl ts rest (h @ [?l]) chunkReq
            (acc @ [\<lparr>fetchConfig' = fc, table' = Table' chunkReq\<rparr>])"
    using Cons.prems(4) q fc by (simp add: Let_def chunkReq_def)
  from Cons.IH[OF rc Cons.prems(2,3,4) qn, of "h @ [?l]" "acc @ [\<lparr>fetchConfig' = fc, table' = Table' chunkReq\<rparr>]"]
  obtain req' added where r:
    "flatten_chunks' path_Join format rurl cl ts rest (h @ [?l]) chunkReq
         (acc @ [\<lparr>fetchConfig' = fc, table' = Table' chunkReq\<rparr>])
       = (req', (h @ [?l]) @ replicate (length rest) ?l,
          Inr ((acc @ [\<lparr>fetchConfig' = fc, table' = Table' chunkReq\<rparr>]) @ added))"
    "map (\<lambda>fr. fc_RateLimiter (fetchConfig' fr)) added
       = [length (h @ [?l]) ..< length (h @ [?l]) + length rest]"
    by blast
  have up: "[length h ..< length h + length (chunk # rest)]
       = length h # [length (h @ [?l]) ..< length (h @ [?l]) + length rest]"
    using upt_conv_Cons[of "length h" "length h + Suc (length rest)"] by (simp del: upt_Suc)
  show ?case
    apply (rule exI[of _ req'])
    apply (rule exI[of _ "\<lparr>fetchConfig' = fc, table' = Table' chunkReq\<rparr> # added"])
    using step r fcl up by (simp add: replicate_app_Cons_same)
qed

section \<open>What the flattened requests of the chunks carry\<close>




section \<open>The number of flattened requests\<close>



section \<open>Flattening the sample requests\<close>

lemma sample_ts_names:
  "StartName sample_ts = ''start''" "EndName sample_ts = ''end''"
  by (simp_all add: sample_ts_def)



lemma sample_Format_simps:
  "sample_Format l (utc 1672531200000000000) = ''2023-01-01T00:00:00Z''"
  "sample_Format l (utc 1672534800000000000) = ''2023-01-01T01:00:00Z''"
  "sample_Format l (utc 1672538400000000000) = ''2023-01-01T02:00:00Z''"
  "sample_Format l (utc 1672540200000000000) = ''2023-01-01T02:30:00Z''"
  by (simp_all add: sample_Format_def sample_times_def)


lemma sample_request_fc:
  "newFetchConfig sample_env sample_config sample_request None 0 =
     Inr \<lparr>fc_Client = None, fc_Method = ''GET'',
          fc_URL = sample_url\<lparr>RawQuery := query_set_all (RawQuery sample_url) sample_query\<rparr>,
          fc_RateLimiter = 0\<rparr>"
  by (simp add: newFetchConfig_def sample_env_def sample_config_def sample_request_def
        sample_JoinPath_def sample_url_Parse_def)

lemma sample_query_bounds:
  "values_index (query_set_all qs sample_query) ''start'' = [''2023-01-01T00:00:00Z'']"
  "values_index (query_set_all qs sample_query) ''end'' = [''2023-01-01T02:00:00Z'']"
  by (simp_all add: values_index_def query_set_all_def sample_query_def)

lemma sample_two_hours:
  assumes "values_index (RawQuery u) ''start'' = [''2023-01-01T00:00:00Z'']"
    and "values_index (RawQuery u) ''end'' = [''2023-01-01T02:00:00Z'']"
  shows "chunks sample_Parse sample_ts u
     = Some (sample_ts\<lparr>Layout := Some RFC3339\<rparr>,
             Inr [(utc 1672531200000000000, utc 1672534800000000000),
                  (utc 1672534800000000000, utc 1672538400000000000)])"
proof -
  have "chunks sample_Parse sample_ts u =
          (case chunks_loop (1000000000 * sint (Period sample_ts))
                  (utc 1672531200000000000) (utc 1672538400000000000) [] of
             None \<Rightarrow> None
           | Some cs \<Rightarrow> Some (sample_ts\<lparr>Layout := Some (layout_or_default sample_ts)\<rparr>, Inr cs))"
    by (rule chunks_parsed[where sv="''2023-01-01T00:00:00Z''" and ev="''2023-01-01T02:00:00Z''"])
       (simp_all add: assms sample_simps sample_Parse_simps sample_ts_names)
  then show ?thesis
    by (simp add: sample_period chunks_loop.simps Let_def sample_simps Before_def)
qed

lemma sample_request_chunks:
  "chunks sample_Parse sample_ts (sample_url\<lparr>RawQuery := query_set_all (RawQuery sample_url) sample_query\<rparr>)
     = Some (sample_ts\<lparr>Layout := Some RFC3339\<rparr>,
             Inr [(utc 1672531200000000000, utc 1672534800000000000),
                  (utc 1672534800000000000, utc 1672538400000000000)])"
  by (rule sample_two_hours) (simp_all add: sample_query_bounds)

lemma sample_chunk_ts':
  "sample_chunk sample_ts' (sample_base_url\<lparr>RawQuery := query_set_all (RawQuery sample_base_url) sample_query\<rparr>)
     = (sample_ts'\<lparr>Layout := Some RFC3339,
                   ts_chunks := [(utc 1672531200000000000, utc 1672534800000000000),
                                 (utc 1672534800000000000, utc 1672538400000000000)]\<rparr>, None)"
proof -
  let ?ts = "\<lparr>StartName = StartName sample_ts', EndName = EndName sample_ts',
              Period = Period sample_ts', Layout = Layout sample_ts'\<rparr>"
  let ?u = "sample_base_url\<lparr>RawQuery := query_set_all (RawQuery sample_base_url) sample_query\<rparr>"
  have ts: "?ts = sample_ts" by (simp add: sample_ts'_def sample_ts_def)
  have "chunks sample_Parse sample_ts ?u =
      Some (sample_ts\<lparr>Layout := Some RFC3339\<rparr>,
            Inr [(utc 1672531200000000000, utc 1672534800000000000),
                 (utc 1672534800000000000, utc 1672538400000000000)])"
    by (rule sample_two_hours) (simp_all add: sample_query_bounds)
  then show ?thesis
    by (simp add: sample_chunk_def ts)
qed



section \<open>The request after flattening\<close>

text \<open>
  C2, on the code: flattening the sample request of two chunks leaves the request itself
  with the bounds of the last chunk in its query map, where the start of the range was
  before; the first flattened request was built while the map held the first chunk.
\<close>

theorem flatten_request_overwrites_query:
  "\<exists>req' f1 f2. flatten_request sample_env sample_config None 0 sample_request []
        = Some (req', Inr [f1, f2])
     \<and> Query_lookup sample_request ''start'' = Some ''2023-01-01T00:00:00Z''
     \<and> Query_lookup req' ''start'' = Some ''2023-01-01T01:00:00Z''
     \<and> Query req' \<noteq> Query sample_request
     \<and> values_index (RawQuery (fc_URL (fetchConfig f1))) ''start'' = [''2023-01-01T00:00:00Z'']
     \<and> values_index (RawQuery (fc_URL (fetchConfig f2))) ''start'' = [''2023-01-01T01:00:00Z'']"
proof -
  have jp: "url_JoinPath sample_env (cfg_URL sample_config) ''/products/BTC-USD/candles'' = Some ''u''"
    "url_Parse sample_env ''u'' = Some sample_url"
    by (simp_all add: sample_env_def sample_config_def sample_JoinPath_def sample_url_Parse_def)
  have fmt: "time_Format sample_env = sample_Format" "time_Parse sample_env = sample_Parse"
    by (simp_all add: sample_env_def)
  have q0: "Query_lookup sample_request ''start'' = Some ''2023-01-01T00:00:00Z''"
    by (simp add: Query_lookup_def sample_request_def sample_query_def)
  have run: "flatten_request sample_env sample_config None 0 sample_request [] =
     Some (sample_request\<lparr>Timeseries := Some (sample_ts\<lparr>Layout := Some RFC3339\<rparr>),
              Query := Some (sample_query(''start'' \<mapsto> ''2023-01-01T01:00:00Z'',
                                          ''end'' \<mapsto> ''2023-01-01T02:00:00Z''))\<rparr>,
           Inr [\<lparr>fetchConfig = \<lparr>fc_Client = None, fc_Method = ''GET'',
                   fc_URL = sample_url\<lparr>RawQuery := query_set_all (RawQuery sample_url)
                      (sample_query(''start'' \<mapsto> ''2023-01-01T00:00:00Z'',
                                    ''end'' \<mapsto> ''2023-01-01T01:00:00Z''))\<rparr>,
                   fc_RateLimiter = 0\<rparr>, table = None\<rparr>,
                \<lparr>fetchConfig = \<lparr>fc_Client = None, fc_Method = ''GET'',
                   fc_URL = sample_url\<lparr>RawQuery := query_set_all (RawQuery sample_url)
                      (sample_query(''start'' \<mapsto> ''2023-01-01T01:00:00Z'',
                                    ''end'' \<mapsto> ''2023-01-01T02:00:00Z''))\<rparr>,
                   fc_RateLimiter = 0\<rparr>, table = None\<rparr>])"
  proof -
    have ts: "Timeseries sample_request = Some sample_ts" by (simp add: sample_request_def)
    have "flatten_request sample_env sample_config None 0 sample_request [] =
       Some (flatten_chunks sample_env sample_config None 0 (sample_ts\<lparr>Layout := Some RFC3339\<rparr>)
                  [(utc 1672531200000000000, utc 1672534800000000000),
                   (utc 1672534800000000000, utc 1672538400000000000)]
               (sample_request\<lparr>Timeseries := Some (sample_ts\<lparr>Layout := Some RFC3339\<rparr>)\<rparr>) [])"
      by (simp add: flatten_request_def sample_request_fc ts fmt sample_request_chunks)
    then show ?thesis
      by (simp add: sample_request_def sample_ts_def Let_def newFetchConfig_def jp fmt sample_Format_simps)
  qed
  have q1: "Query sample_request = Some sample_query" by (simp add: sample_request_def)
  have ne: "sample_query(''start'' \<mapsto> ''2023-01-01T01:00:00Z'', ''end'' \<mapsto> ''2023-01-01T02:00:00Z'')
              \<noteq> sample_query"
  proof
    assume "sample_query(''start'' \<mapsto> ''2023-01-01T01:00:00Z'', ''end'' \<mapsto> ''2023-01-01T02:00:00Z'')
              = sample_query"
    then have "(sample_query(''start'' \<mapsto> ''2023-01-01T01:00:00Z'', ''end'' \<mapsto> ''2023-01-01T02:00:00Z''))
                 ''start'' = sample_query ''start''"
      by simp
    then show False by (simp add: sample_query_def)
  qed
  show ?thesis
    apply (rule exI, rule exI, rule exI)
    apply (rule conjI, rule run)
    apply (rule conjI, rule q0)
    apply (simp add: Query_lookup_def values_index_def query_set_all_def q1 ne)
    done
qed

section \<open>The rate limiter of the flattened requests\<close>

lemma flatten_request_limiter:
  assumes "flatten_request E cfg cl rl req acc = Some (req', Inr frs)"
    and "\<forall>fr \<in> set acc. fc_RateLimiter (fetchConfig fr) = rl"
  shows "\<forall>fr \<in> set frs. fc_RateLimiter (fetchConfig fr) = rl"
proof (cases "newFetchConfig E cfg req cl rl")
  case (Inl err)
  with assms show ?thesis by (simp add: flatten_request_def)
next
  case (Inr fc)
  then have fcl: "fc_RateLimiter fc = rl" by (auto simp: newFetchConfig_Inr)
  show ?thesis
  proof (cases "Timeseries req")
    case None
    with assms Inr fcl show ?thesis by (auto simp: flatten_request_def)
  next
    case (Some ts0)
    with assms Inr obtain ts cs where
      ch: "chunks (time_Parse E) ts0 (fc_URL fc) = Some (ts, Inr cs)"
      and fl: "flatten_chunks E cfg cl rl ts cs (req\<lparr>Timeseries := Some ts\<rparr>) acc = (req', Inr frs)"
      by (auto simp: flatten_request_def split: option.splits sum.splits)
    have "\<And>req acc. flatten_chunks E cfg cl rl ts cs req acc = (req', Inr frs) \<Longrightarrow>
         \<forall>fr \<in> set acc. fc_RateLimiter (fetchConfig fr) = rl \<Longrightarrow>
         \<forall>fr \<in> set frs. fc_RateLimiter (fetchConfig fr) = rl"
    proof (induction cs)
      case Nil
      then show ?case by simp
    next
      case (Cons c cs)
      from Cons.prems(1) obtain layout q fc' where
        "newFetchConfig E cfg (req\<lparr>Query := Some (q(StartName ts \<mapsto> time_Format E layout (fst c),
             EndName ts \<mapsto> time_Format E layout (snd c)))\<rparr>) cl rl = Inr fc'"
        and rest: "flatten_chunks E cfg cl rl ts cs
           (req\<lparr>Query := Some (q(StartName ts \<mapsto> time_Format E layout (fst c),
             EndName ts \<mapsto> time_Format E layout (snd c)))\<rparr>)
           (acc @ [\<lparr>fetchConfig = fc', table = Table req\<rparr>]) = (req', Inr frs)"
        by (auto simp: Let_def split: option.splits sum.splits)
      then have "fc_RateLimiter fc' = rl" by (auto simp: newFetchConfig_Inr)
      with Cons.prems(2) have "\<forall>fr \<in> set (acc @ [\<lparr>fetchConfig = fc', table = Table req\<rparr>]).
          fc_RateLimiter (fetchConfig fr) = rl" by simp
      from Cons.IH[OF rest this] show ?case .
    qed
    from this[OF fl assms(2)] show ?thesis .
  qed
qed

lemma flatten_requests_limiter:
  "flatten_requests E cfg cl rl reqs acc = Some (reqs', Inr frs) \<Longrightarrow>
   \<forall>fr \<in> set acc. fc_RateLimiter (fetchConfig fr) = rl \<Longrightarrow>
   \<forall>fr \<in> set frs. fc_RateLimiter (fetchConfig fr) = rl"
proof (induction reqs arbitrary: acc reqs')
  case Nil
  then show ?case by simp
next
  case (Cons req reqs)
  from Cons.prems(1) obtain req' mid rest' where
    one: "flatten_request E cfg cl rl req acc = Some (req', Inr mid)"
    and more: "flatten_requests E cfg cl rl reqs mid = Some (rest', Inr frs)"
    by (auto split: option.splits sum.splits prod.splits)
  from flatten_request_limiter[OF one Cons.prems(2)] Cons.IH[OF more] show ?case by blast
qed

text \<open>
  In \<open>Upsert\<close> one limiter is allocated and every flattened request of the plan holds
  its address.
\<close>

lemma Upsert_shares_limiter:
  assumes "Upsert E h cfg = Some (reqs, h', Inr p)"
  shows "length h' = Suc (length h) \<and> plan_rateLimiter p = length h
         \<and> (\<forall>fr \<in> set (plan_flattenedRequests p). fc_RateLimiter (fetchConfig fr) = plan_rateLimiter p)"
proof -
  from assms obtain cl rl frs where
    fl: "flatten_requests E cfg cl rl (Requests cfg) [] = Some (reqs, Inr frs)"
    and p: "plan_flattenedRequests p = frs" "plan_rateLimiter p = rl" "rl = length h"
       "length h' = Suc (length h)"
    by (auto simp: Upsert_def NewLimiter_def Let_def
             split: option.splits sum.splits prod.splits)
  from flatten_requests_limiter[OF fl] p show ?thesis by simp
qed

text \<open>
  C4, on the code of the second file: \<open>flattenTimeseries\<close> of the sample request of two
  chunks allocates two limiters, and the two flattened requests hold different ones.
\<close>

theorem flattenTimeseries_limiter_per_request:
  "\<exists>r' h' f1 f2. flattenTimeseries' sample_path_Join sample_Format sample_chunk []
                    sample_request' sample_base_url None = (r', h', Inr [f1, f2])
     \<and> length h' = 2
     \<and> fc_RateLimiter (fetchConfig' f1) = 0
     \<and> fc_RateLimiter (fetchConfig' f2) = 1"
proof -
  let ?ts1 = "sample_ts'\<lparr>Layout := Some RFC3339,
                   ts_chunks := [(utc 1672531200000000000, utc 1672534800000000000),
                                 (utc 1672534800000000000, utc 1672538400000000000)]\<rparr>"
  let ?u = "sample_base_url\<lparr>RawQuery := query_set_all (RawQuery sample_base_url) sample_query\<rparr>"
  let ?r = "sample_request'\<lparr>Timeseries' := Some ?ts1\<rparr>"
  have r: "RateLimitConfig' ?r = Some \<lparr>Burst = Some 10, rl_Period = Some 1000000000\<rparr>"
      "Query' ?r \<noteq> None" "Query' sample_request' = Some sample_query"
      "Timeseries' sample_request' = Some sample_ts'"
    by (simp_all add: sample_request'_def)
  have lay: "Layout ?ts1 = Some RFC3339" by simp
  from flatten_chunks'_ok[OF r(1) _ _ lay r(2), of 1000000000 10 sample_path_Join sample_Format ?u None
      "ts_chunks ?ts1" "[]" "[]"]
  obtain req' added where
    f: "flatten_chunks' sample_path_Join sample_Format ?u None ?ts1 (ts_chunks ?ts1) [] ?r []
          = (req', replicate 2 \<lparr>lim_every = 1000000000, lim_burst = 10\<rparr>, Inr added)"
    and m: "map (\<lambda>fr. fc_RateLimiter (fetchConfig' fr)) added = [0, 1]"
    by (auto simp: upt_rec numeral_2_eq_2)
  from m obtain f1 f2 where a: "added = [f1, f2]"
    "fc_RateLimiter (fetchConfig' f1) = 0" "fc_RateLimiter (fetchConfig' f2) = 1"
    by (auto simp: map_eq_Cons_conv)
  have "flattenTimeseries' sample_path_Join sample_Format sample_chunk []
          sample_request' sample_base_url None
        = (req', replicate 2 \<lparr>lim_every = 1000000000, lim_burst = 10\<rparr>, Inr [f1, f2])"
    using f a(1) by (simp add: flattenTimeseries'_def r sample_chunk_ts')
  with a show ?thesis by simp
qed

section \<open>Connecting\<close>













section \<open>Errors in the workers\<close>

lemma webWorker_append:
  "webWorker E pre = (sent, ChannelClosed) \<Longrightarrow>
   webWorker E (pre @ rest) = (sent @ fst (webWorker E rest), snd (webWorker E rest))"
proof (induction pre arbitrary: sent)
  case Nil
  then show ?case by simp
next
  case (Cons job pre)
  then show ?case
    by (auto split: sum.splits prod.splits)
qed

lemma run_callback_not_closed: "run_callback E cb job \<noteq> Inl ChannelClosed"
  by (simp add: run_callback_def split: encodingCallback.splits sum.splits)

lemma upsert_repositories_not_closed:
  "upsert_repositories E cb job tbl repos = (dn, Some h) \<Longrightarrow> h \<noteq> ChannelClosed"
proof (induction repos arbitrary: dn)
  case Nil
  then show ?case by simp
next
  case (Cons r repos)
  then show ?case
    using run_callback_not_closed[of E cb job]
    by (auto split: sum.splits option.splits prod.splits)
qed

lemma repositoryWorker_append:
  "repositoryWorker E repos pre = (ups, n, ChannelClosed) \<Longrightarrow>
   repositoryWorker E repos (pre @ rest) =
     (ups @ fst (repositoryWorker E repos rest),
      n + fst (snd (repositoryWorker E repos rest)),
      snd (snd (repositoryWorker E repos rest)))"
proof (induction pre arbitrary: ups n)
  case Nil
  then show ?case by simp
next
  case (Cons job pre)
  from Cons.prems obtain tbl cb dn dn' n' where
    r: "resolve_table job = Inr (tbl, cb)"
    and u: "upsert_repositories E cb job tbl repos = (dn, None)"
    and w: "repositoryWorker E repos pre = (dn', n', ChannelClosed)"
    and e: "ups = dn @ dn'" "n = Suc n'"
    by (auto split: sum.splits prod.splits option.splits dest: upsert_repositories_not_closed)
  from Cons.IH[OF w] r u e show ?case by simp
qed

lemma upsert_repositories_fails:
  assumes "run_callback E cb job = Inr bs"
    and "\<forall>r' \<in> set rs1. UpsertJSON E r' tbl bs = None"
    and "UpsertJSON E r tbl bs = Some err"
  shows "upsert_repositories E cb job tbl (rs1 @ r # rs2)
           = (map (\<lambda>r'. (r', tbl, bs)) rs1, Some (Fatal err))"
  using assms by (induction rs1) auto

lemma upsert_repositories_encoding:
  assumes "run_callback E cb job = Inl h" and "repos \<noteq> []"
  shows "upsert_repositories E cb job tbl repos = ([], Some h)"
  using assms by (cases repos) auto

text \<open>
  C3 as the code has it. A fetch that fails ends the run of the fetch worker with
  \<^verbatim>\<open>logger.Fatal\<close>, which exits the process: the jobs sent are those of the earlier
  fetches and no later job is fetched. In the storage worker an encoding failure, or an
  upsert that fails after the upserts to the repositories before it, ends the run the same
  way: no value is sent on \<^verbatim>\<open>done\<close> for the job and no later job is processed.
\<close>

theorem worker_error_is_fatal:
  "(webWorker E pre = (sent, ChannelClosed) \<and> web_Fetch E (fetchConfig job) = Inl err \<longrightarrow>
      webWorker E (pre @ job # post) = (sent, Fatal err))
   \<and> (repositoryWorker E repos rpre = (ups, n, ChannelClosed)
        \<and> resolve_table rjob = Inr (tbl, CandlesCallback productID)
        \<and> candles_json E productID (job_b rjob) = Inl err \<and> repos \<noteq> [] \<longrightarrow>
      repositoryWorker E repos (rpre @ rjob # rpost) = (ups, n, Fatal err))
   \<and> (repositoryWorker E (rs1 @ r # rs2) rpre = (ups, n, ChannelClosed)
        \<and> resolve_table rjob = Inr (tbl, cb) \<and> run_callback E cb rjob = Inr bs
        \<and> (\<forall>r' \<in> set rs1. UpsertJSON E r' tbl bs = None)
        \<and> UpsertJSON E r tbl bs = Some err \<longrightarrow>
      repositoryWorker E (rs1 @ r # rs2) (rpre @ rjob # rpost)
        = (ups @ map (\<lambda>r'. (r', tbl, bs)) rs1, n, Fatal err))"
proof (intro conjI impI)
  assume a: "webWorker E pre = (sent, ChannelClosed) \<and> web_Fetch E (fetchConfig job) = Inl err"
  then have "webWorker E (job # post) = ([], Fatal err)" by simp
  with a webWorker_append[of E pre sent "job # post"]
  show "webWorker E (pre @ job # post) = (sent, Fatal err)" by simp
next
  assume a: "repositoryWorker E repos rpre = (ups, n, ChannelClosed)
        \<and> resolve_table rjob = Inr (tbl, CandlesCallback productID)
        \<and> candles_json E productID (job_b rjob) = Inl err \<and> repos \<noteq> []"
  then have "run_callback E (CandlesCallback productID) rjob = Inl (Fatal err)"
    by (simp add: run_callback_def)
  with a have "upsert_repositories E (CandlesCallback productID) rjob tbl repos = ([], Some (Fatal err))"
    by (simp add: upsert_repositories_encoding)
  with a have "repositoryWorker E repos (rjob # rpost) = ([], 0, Fatal err)" by simp
  with a repositoryWorker_append[of E repos rpre ups n "rjob # rpost"]
  show "repositoryWorker E repos (rpre @ rjob # rpost) = (ups, n, Fatal err)" by simp
next
  assume a: "repositoryWorker E (rs1 @ r # rs2) rpre = (ups, n, ChannelClosed)
        \<and> resolve_table rjob = Inr (tbl, cb) \<and> run_callback E cb rjob = Inr bs
        \<and> (\<forall>r' \<in> set rs1. UpsertJSON E r' tbl bs = None)
        \<and> UpsertJSON E r tbl bs = Some err"
  then have "upsert_repositories E cb rjob tbl (rs1 @ r # rs2)
           = (map (\<lambda>r'. (r', tbl, bs)) rs1, Some (Fatal err))"
    by (intro upsert_repositories_fails) simp_all
  with a have "repositoryWorker E (rs1 @ r # rs2) (rjob # rpost)
      = (map (\<lambda>r'. (r', tbl, bs)) rs1, 0, Fatal err)" by simp
  with a repositoryWorker_append[of E "rs1 @ r # rs2" rpre ups n "rjob # rpost"]
  show "repositoryWorker E (rs1 @ r # rs2) (rpre @ rjob # rpost)
        = (ups @ map (\<lambda>r'. (r', tbl, bs)) rs1, n, Fatal err)" by simp
qed

section \<open>The workers on the sample inputs\<close>

lemma sample_host: "strings_Contains ''api.exchange.coinbase.com'' ''coinbase.com''"
  by simp

lemma sample_parts:
  "endpointParts (sample_repoJob ''/products/BTC-USD/candles'' q t bs) = [''products'', ''BTC-USD'', ''candles'']"
  "endpointParts (sample_repoJob ''/candles'' q t bs) = [''candles'']"
  "endpointParts (sample_repoJob ''/products'' q t bs) = [''products'']"
  by (simp_all add: endpointParts_def sample_repoJob_def strings_TrimPrefix_def)

lemma sample_job_fields:
  "Host (job_url (sample_repoJob p q t bs)) = ''api.exchange.coinbase.com''"
  "RawQuery (job_url (sample_repoJob p q t bs)) = q"
  "job_table (sample_repoJob p q t bs) = t"
  "job_b (sample_repoJob p q t bs) = bs"
  by (simp_all add: sample_repoJob_def)

lemma sample_default_table:
  "default_table (sample_repoJob ''/products/BTC-USD/candles'' q None bs) = ''candles''"
  "default_table (sample_repoJob ''/candles'' q None bs) = ''candles''"
  "default_table (sample_repoJob ''/products'' q None bs) = ''products''"
  "default_table (sample_repoJob p q (Some t) bs) = t"
  by (simp_all add: default_table_def sample_parts sample_job_fields)

lemma sample_resolve:
  "resolve_table (sample_repoJob ''/products/BTC-USD/candles'' (sample_granularity ''60'') None bs)
     = Inr (''candle_minutes'', CandlesCallback ''BTC-USD'')"
  "resolve_table (sample_repoJob ''/products/BTC-USD/candles'' (sample_granularity ''60'') (Some ''candles'') bs)
     = Inr (''candle_minutes'', CandlesCallback ''BTC-USD'')"
  "resolve_table (sample_repoJob ''/products'' Map.empty None bs) = Inr (''products'', PassThrough)"
  by (simp_all add: resolve_table_def sample_default_table sample_job_fields sample_parts
        sample_host sample_granularity_def values_index_def)

lemma sample_webWorker:
  "webWorker sample_env [sample_fr ''GET'']
     = ([\<lparr>job_b = ''[]'', job_url = sample_url, job_table = None\<rparr>], ChannelClosed)"
  by (simp add: sample_env_def sample_Fetch_def sample_fr_def)

text \<open>
  Witness of \<open>worker_error_is_fatal\<close>: a fetch that fails between two that succeed, a
  payload of candles that does not decode, and an upsert that fails at the second of
  three repositories.
\<close>

theorem worker_error_is_fatal_witness:
  "webWorker sample_env ([sample_fr ''GET''] @ sample_fr ''POST'' # [sample_fr ''GET''])
     = ([\<lparr>job_b = ''[]'', job_url = sample_url, job_table = None\<rparr>], Fatal (External ''405''))
   \<and> repositoryWorker sample_env [1, 2]
        ([] @ sample_repoJob ''/products/BTC-USD/candles'' (sample_granularity ''60'') None ''{''
            # [sample_repoJob ''/products'' Map.empty None ''[]''])
     = ([], 0, Fatal (External ''json''))
   \<and> repositoryWorker sample_env ([1] @ 0 # [2])
        ([] @ sample_repoJob ''/products'' Map.empty None ''[]''
            # [sample_repoJob ''/products'' Map.empty None ''[]''])
     = ([] @ map (\<lambda>r'. (r', ''products'', ''[]'')) [1], 0, Fatal (External ''down''))"
proof (intro conjI)
  have "webWorker sample_env [sample_fr ''GET'']
          = ([\<lparr>job_b = ''[]'', job_url = sample_url, job_table = None\<rparr>], ChannelClosed)
        \<and> web_Fetch sample_env (fetchConfig (sample_fr ''POST'')) = Inl (External ''405'')"
    by (simp add: sample_webWorker) (simp add: sample_env_def sample_Fetch_def sample_fr_def)
  with worker_error_is_fatal[where E=sample_env and pre="[sample_fr ''GET'']"
      and job="sample_fr ''POST''" and post="[sample_fr ''GET'']" and err="External ''405''"
      and sent="[\<lparr>job_b = ''[]'', job_url = sample_url, job_table = None\<rparr>]", THEN conjunct1]
  show "webWorker sample_env ([sample_fr ''GET''] @ sample_fr ''POST'' # [sample_fr ''GET''])
     = ([\<lparr>job_b = ''[]'', job_url = sample_url, job_table = None\<rparr>], Fatal (External ''405''))"
    by blast
next
  let ?j = "sample_repoJob ''/products/BTC-USD/candles'' (sample_granularity ''60'') None ''{''"
  have "repositoryWorker sample_env [1, 2] [] = ([], 0, ChannelClosed)
        \<and> resolve_table ?j = Inr (''candle_minutes'', CandlesCallback ''BTC-USD'')
        \<and> candles_json sample_env ''BTC-USD'' (job_b ?j) = Inl (External ''json'')
        \<and> [1, 2::nat] \<noteq> []"
    by (simp add: sample_resolve sample_job_fields) (simp add: sample_env_def sample_candles_json_def)
  with worker_error_is_fatal[where E=sample_env and repos="[1, 2]" and rpre="[]" and rjob="?j"
      and ups="[]" and n=0 and tbl="''candle_minutes''" and productID="''BTC-USD''"
      and err="External ''json''" and rpost="[sample_repoJob ''/products'' Map.empty None ''[]'']",
      THEN conjunct2, THEN conjunct1]
  show "repositoryWorker sample_env [1, 2]
        ([] @ ?j # [sample_repoJob ''/products'' Map.empty None ''[]''])
     = ([], 0, Fatal (External ''json''))"
    by blast
next
  let ?j = "sample_repoJob ''/products'' Map.empty None ''[]''"
  have "repositoryWorker sample_env ([1] @ 0 # [2]) [] = ([], 0, ChannelClosed)
        \<and> resolve_table ?j = Inr (''products'', PassThrough)
        \<and> run_callback sample_env PassThrough ?j = Inr ''[]''
        \<and> (\<forall>r' \<in> set [1]. UpsertJSON sample_env r' ''products'' ''[]'' = None)
        \<and> UpsertJSON sample_env 0 ''products'' ''[]'' = Some (External ''down'')"
    by (simp add: sample_resolve sample_job_fields run_callback_def)
       (simp add: sample_env_def sample_UpsertJSON_def)
  with worker_error_is_fatal[where E=sample_env and ?rs1.0="[1]" and r=0 and ?rs2.0="[2]" and rpre="[]"
      and rjob="?j" and ups="[]" and n=0 and tbl="''products''" and cb=PassThrough and bs="''[]''"
      and err="External ''down''" and rpost="[?j]",
      THEN conjunct2, THEN conjunct2]
  show "repositoryWorker sample_env ([1] @ 0 # [2]) ([] @ ?j # [?j])
     = ([] @ map (\<lambda>r'. (r', ''products'', ''[]'')) [1], 0, Fatal (External ''down''))"
    by blast
qed

text \<open>
  C3 fails on the code: the fetch worker that would send the result of a job does not
  reach it when the fetch of the job before fails; the run ends in \<^verbatim>\<open>logger.Fatal\<close>
  with nothing sent.
\<close>

theorem webWorker_exits_on_fetch_error:
  "webWorker sample_env [sample_fr ''GET'']
     = ([\<lparr>job_b = ''[]'', job_url = sample_url, job_table = None\<rparr>], ChannelClosed)
   \<and> webWorker sample_env [sample_fr ''POST'', sample_fr ''GET''] = ([], Fatal (External ''405''))"
  by (simp add: sample_env_def sample_Fetch_def sample_fr_def)

section \<open>The destination table\<close>

lemma strings_Split_nonempty: "strings_Split s sep \<noteq> []"
  by (induction s) (auto split: list.splits)

lemma strings_Split_no_sep: "sep \<notin> set s \<Longrightarrow> strings_Split s sep = [s]"
  by (induction s) auto

lemma strings_Split_append:
  "strings_Split (p @ sep # s) sep = strings_Split p sep @ strings_Split s sep"
proof (induction p)
  case Nil
  then show ?case by simp
next
  case (Cons c p)
  obtain x xs where "strings_Split p sep = x # xs"
    using strings_Split_nonempty[of p sep] by (cases "strings_Split p sep") auto
  with Cons show ?case by simp
qed

lemma strings_Split_last:
  "sep \<notin> set seg \<Longrightarrow> last (strings_Split (p @ sep # seg) sep) = seg"
  by (simp add: strings_Split_append strings_Split_no_sep)

lemma TrimPrefix_slash:
  "strings_TrimPrefix s ''/'' = (case s of [] \<Rightarrow> [] | c # t \<Rightarrow> if c = CHR ''/'' then t else s)"
  by (cases s) (auto simp: strings_TrimPrefix_def)

lemma endpointParts_last:
  assumes "EscapedPath (job_url job) = p @ CHR ''/'' # seg" and "CHR ''/'' \<notin> set seg"
  shows "last (endpointParts job) = seg"
proof (cases p)
  case Nil
  with assms show ?thesis
    by (simp add: endpointParts_def TrimPrefix_slash strings_Split_no_sep)
next
  case (Cons c p')
  show ?thesis
  proof (cases "c = CHR ''/''")
    case True
    with Cons assms strings_Split_last[of "CHR ''/''" seg p'] show ?thesis
      by (simp add: endpointParts_def TrimPrefix_slash)
  next
    case False
    with Cons assms strings_Split_last[of "CHR ''/''" seg p] show ?thesis
      by (simp add: endpointParts_def TrimPrefix_slash)
  qed
qed

lemma default_table_eq:
  "default_table job = (case job_table job of None \<Rightarrow> last (endpointParts job) | Some t \<Rightarrow> t)"
  using strings_Split_nonempty[of "strings_TrimPrefix (EscapedPath (job_url job)) ''/''" "CHR ''/''"]
  by (simp add: default_table_def endpointParts_def Let_def last_conv_nth split: option.splits)

text \<open>
  C6 as the code has it. Before the switch on it the table is the explicit table of the job
  when there is one, and otherwise the last segment of the path of the URL, split at the
  slashes after one leading slash is removed. That is the table of the upserts unless it
  is \<open>candles\<close> on a host that contains \<open>coinbase.com\<close>; there the table is
  \<open>candle_minutes\<close> when the first value of \<open>granularity\<close> is \<open>60\<close>.
\<close>

theorem resolve_table_name:
  "default_table job = (case job_table job of None \<Rightarrow> last (endpointParts job) | Some t \<Rightarrow> t)
   \<and> (job_table job = None \<and> EscapedPath (job_url job) = p @ CHR ''/'' # seg
        \<and> CHR ''/'' \<notin> set seg \<longrightarrow> default_table job = seg)
   \<and> (default_table job = ''candles'' \<and> strings_Contains (Host (job_url job)) ''coinbase.com''
        \<and> resolve_table job = Inr (tbl, cb)
        \<longrightarrow> tbl = (if take 1 (values_index (RawQuery (job_url job)) ''granularity'') = [''60'']
                   then ''candle_minutes'' else ''candles''))
   \<and> (\<not> (default_table job = ''candles'' \<and> strings_Contains (Host (job_url job)) ''coinbase.com'')
        \<longrightarrow> (\<exists>cb. resolve_table job = Inr (default_table job, cb)))"
proof (intro conjI impI)
  show "default_table job = (case job_table job of None \<Rightarrow> last (endpointParts job) | Some t \<Rightarrow> t)"
    by (rule default_table_eq)
next
  assume "job_table job = None \<and> EscapedPath (job_url job) = p @ CHR ''/'' # seg
        \<and> CHR ''/'' \<notin> set seg"
  then show "default_table job = seg"
    using endpointParts_last[of job p seg] by (simp add: default_table_eq)
next
  assume "default_table job = ''candles'' \<and> strings_Contains (Host (job_url job)) ''coinbase.com''
        \<and> resolve_table job = Inr (tbl, cb)"
  then show "tbl = (if take 1 (values_index (RawQuery (job_url job)) ''granularity'') = [''60'']
                     then ''candle_minutes'' else ''candles'')"
    by (auto simp: resolve_table_def Let_def split: list.splits if_splits)
next
  assume "\<not> (default_table job = ''candles'' \<and> strings_Contains (Host (job_url job)) ''coinbase.com'')"
  then show "\<exists>cb. resolve_table job = Inr (default_table job, cb)"
    by (auto simp: resolve_table_def Let_def)
qed

text \<open>
  Witness of \<open>resolve_table_name\<close>: the path \<open>/products\<close> without an explicit table
  (\<open>p\<close> is empty), and the candles of one minute of the exchange.
\<close>

theorem resolve_table_name_witness:
  "default_table (sample_repoJob ''/products'' Map.empty None ''[]'') = ''products''
   \<and> (\<exists>cb. resolve_table (sample_repoJob ''/products'' Map.empty None ''[]'')
              = Inr (default_table (sample_repoJob ''/products'' Map.empty None ''[]''), cb))
   \<and> resolve_table (sample_repoJob ''/products/BTC-USD/candles'' (sample_granularity ''60'') None ''[]'')
       = Inr (''candle_minutes'', CandlesCallback ''BTC-USD'')
   \<and> ''candle_minutes''
       = (if take 1 (values_index (RawQuery (job_url (sample_repoJob ''/products/BTC-USD/candles''
                        (sample_granularity ''60'') None ''[]''))) ''granularity'') = [''60'']
          then ''candle_minutes'' else ''candles'')"
proof (intro conjI)
  let ?j = "sample_repoJob ''/products'' Map.empty None ''[]''"
  have h: "job_table ?j = None \<and> EscapedPath (job_url ?j) = [] @ CHR ''/'' # ''products''
        \<and> CHR ''/'' \<notin> set ''products''"
    by (simp add: sample_repoJob_def)
  with resolve_table_name[of ?j "[]" "''products''", THEN conjunct2, THEN conjunct1]
  show d: "default_table ?j = ''products''" by blast
  have "\<not> (default_table ?j = ''candles'' \<and> strings_Contains (Host (job_url ?j)) ''coinbase.com'')"
    using d by simp
  with resolve_table_name[of ?j "[]" "''products''", THEN conjunct2, THEN conjunct2, THEN conjunct2]
  show "\<exists>cb. resolve_table ?j = Inr (default_table ?j, cb)" by blast
next
  let ?j = "sample_repoJob ''/products/BTC-USD/candles'' (sample_granularity ''60'') None ''[]''"
  show r: "resolve_table ?j = Inr (''candle_minutes'', CandlesCallback ''BTC-USD'')"
    by (simp add: sample_resolve)
  have "default_table ?j = ''candles'' \<and> strings_Contains (Host (job_url ?j)) ''coinbase.com''
        \<and> resolve_table ?j = Inr (''candle_minutes'', CandlesCallback ''BTC-USD'')"
    by (simp add: sample_default_table sample_job_fields sample_host r)
  with resolve_table_name[of ?j "[]" "''products''" "''candle_minutes''" "CandlesCallback ''BTC-USD''",
      THEN conjunct2, THEN conjunct2, THEN conjunct1]
  show "''candle_minutes''
       = (if take 1 (values_index (RawQuery (job_url ?j)) ''granularity'') = [''60'']
          then ''candle_minutes'' else ''candles'')"
    by blast
qed

text \<open>
  C6 fails on the code: for the candles of one minute of the exchange the table of the
  upserts is \<open>candle_minutes\<close>, which is neither the last segment of the path nor the
  explicit table \<open>candles\<close> of the second job.
\<close>

theorem resolve_table_renames_candles:
  "resolve_table (sample_repoJob ''/products/BTC-USD/candles'' (sample_granularity ''60'') None ''[]'')
     = Inr (''candle_minutes'', CandlesCallback ''BTC-USD'')
   \<and> resolve_table (sample_repoJob ''/products/BTC-USD/candles'' (sample_granularity ''60'')
                      (Some ''candles'') ''[]'')
     = Inr (''candle_minutes'', CandlesCallback ''BTC-USD'')"
  by (simp add: sample_resolve)

section \<open>The index expressions of the storage worker\<close>

text \<open>
  C10. When the table before the switch is \<open>candles\<close> and the host contains
  \<open>coinbase.com\<close>, a query without \<open>granularity\<close> or a path of fewer than two
  segments makes an index expression of the storage worker panic out of range: the run
  of the worker ends there, with no upsert and no value sent on \<^verbatim>\<open>done\<close>.
\<close>

theorem resolve_table_index_panics:
  assumes "default_table job = ''candles''"
    and "strings_Contains (Host (job_url job)) ''coinbase.com''"
    and "values_index (RawQuery (job_url job)) ''granularity'' = []
         \<or> length (endpointParts job) < 2"
  shows "resolve_table job = Inl PanicIndexOutOfRange
         \<and> repositoryWorker E repos (job # jobs) = ([], 0, Panic PanicIndexOutOfRange)"
proof -
  from assms have "resolve_table job = Inl PanicIndexOutOfRange"
    by (auto simp: resolve_table_def Let_def split: list.splits)
  then show ?thesis by simp
qed

text \<open>
  Witness of \<open>resolve_table_index_panics\<close>: the candles of the exchange without
  \<open>granularity\<close> in the query, and the path \<open>/candles\<close> of one segment.
\<close>

theorem resolve_table_index_panics_witness:
  "repositoryWorker sample_env [1, 2]
      (sample_repoJob ''/products/BTC-USD/candles'' Map.empty None ''[]'' # [])
     = ([], 0, Panic PanicIndexOutOfRange)
   \<and> length (endpointParts (sample_repoJob ''/candles'' (sample_granularity ''60'') None ''[]'')) < 2
   \<and> repositoryWorker sample_env [1, 2]
      (sample_repoJob ''/candles'' (sample_granularity ''60'') None ''[]'' # [])
     = ([], 0, Panic PanicIndexOutOfRange)"
proof (intro conjI)
  let ?j = "sample_repoJob ''/products/BTC-USD/candles'' Map.empty None ''[]''"
  have h1: "default_table ?j = ''candles''"
    and h2: "strings_Contains (Host (job_url ?j)) ''coinbase.com''"
    and h3: "values_index (RawQuery (job_url ?j)) ''granularity'' = [] \<or> length (endpointParts ?j) < 2"
    by (simp_all add: sample_default_table sample_job_fields sample_host values_index_def)
  from resolve_table_index_panics[OF h1 h2 h3, of sample_env "[1, 2]" "[]"]
  show "repositoryWorker sample_env [1, 2] (?j # []) = ([], 0, Panic PanicIndexOutOfRange)"
    by blast
next
  let ?j = "sample_repoJob ''/candles'' (sample_granularity ''60'') None ''[]''"
  show l: "length (endpointParts ?j) < 2" by (simp add: sample_parts)
  have h1: "default_table ?j = ''candles''"
    and h2: "strings_Contains (Host (job_url ?j)) ''coinbase.com''"
    by (simp_all add: sample_default_table sample_job_fields sample_host)
  from l have h3: "values_index (RawQuery (job_url ?j)) ''granularity'' = [] \<or> length (endpointParts ?j) < 2"
    by blast
  from resolve_table_index_panics[OF h1 h2 h3, of sample_env "[1, 2]" "[]"]
  show "repositoryWorker sample_env [1, 2] (?j # []) = ([], 0, Panic PanicIndexOutOfRange)"
    by blast
qed

end
